theory Spec2Isabelle
  imports Complex_Main "HOL-Library.Word"
begin

section \<open>Values passed between the scene manager and its collaborators\<close>

text \<open>
  \<open>SceneManager.cpp\<close> does no arithmetic on \<open>float\<close> values itself: it only
  stores literals, copies them and hands them to GLM and to the shader manager. A
  \<open>float\<close> is therefore carried as the real number its literal denotes.
\<close>

type_synonym float = real
type_synonym vec2 = "float \<times> float"
type_synonym vec3 = "float \<times> float \<times> float"
type_synonym vec4 = "float \<times> float \<times> float \<times> float"

text \<open>A \<open>glm::mat4\<close> is stored by columns, as GLM stores it.\<close>

type_synonym mat4 = "vec4 \<times> vec4 \<times> vec4 \<times> vec4"

type_synonym GLuint = "32 word"

section \<open>GLM\<close>

text \<open>
  Modelled from the spec: GLM, a third-party header library whose source is not among
  the files of the repository. The specification names the factors of the model matrix
  (translation, rotation about each axis by an angle in degrees, scale) and fixes the
  sense of rotation: a quarter turn about X takes the point (0, 1, 0) to (0, 0, 1).
  The functions the scene manager calls are written by their mathematical definitions
  over the reals, as the GLM reference gives them: \<open>glm::radians\<close>, \<open>glm::scale\<close>,
  \<open>glm::rotate\<close> (angle and axis, the axis normalised first), \<open>glm::translate\<close>
  (each applied to the identity matrix, as \<open>glm/gtx/transform.hpp\<close> does) and the
  product of two \<open>mat4\<close>.
\<close>

definition mat4_identity :: mat4 where
  "mat4_identity = ((1, 0, 0, 0), (0, 1, 0, 0), (0, 0, 1, 0), (0, 0, 0, 1))"

definition glm_radians :: "float \<Rightarrow> float" where
  "glm_radians degrees = degrees * (pi / 180)"

definition glm_scale :: "vec3 \<Rightarrow> mat4" where
  "glm_scale v = (case v of (x, y, z) \<Rightarrow>
     ((x, 0, 0, 0), (0, y, 0, 0), (0, 0, z, 0), (0, 0, 0, 1)))"

definition glm_translate :: "vec3 \<Rightarrow> mat4" where
  "glm_translate v = (case v of (x, y, z) \<Rightarrow>
     ((1, 0, 0, 0), (0, 1, 0, 0), (0, 0, 1, 0), (x, y, z, 1)))"

definition glm_normalize :: "vec3 \<Rightarrow> vec3" where
  "glm_normalize v = (case v of (x, y, z) \<Rightarrow>
     (let len = sqrt (x * x + y * y + z * z) in (x / len, y / len, z / len)))"

definition glm_rotate :: "float \<Rightarrow> vec3 \<Rightarrow> mat4" where
  "glm_rotate angle v =
     (let c = cos angle; s = sin angle in
      case glm_normalize v of (ax, ay, az) \<Rightarrow>
        (let tx = (1 - c) * ax; ty = (1 - c) * ay; tz = (1 - c) * az in
         ((c + tx * ax, tx * ay + s * az, tx * az - s * ay, 0),
          (ty * ax - s * az, c + ty * ay, ty * az + s * ax, 0),
          (tz * ax + s * ay, tz * ay - s * ax, c + tz * az, 0),
          (0, 0, 0, 1))))"

definition vec4_scale :: "vec4 \<Rightarrow> float \<Rightarrow> vec4" where
  "vec4_scale v k = (case v of (a, b, c, d) \<Rightarrow> (a * k, b * k, c * k, d * k))"

definition vec4_add :: "vec4 \<Rightarrow> vec4 \<Rightarrow> vec4" where
  "vec4_add v w = (case v of (a, b, c, d) \<Rightarrow> case w of (a', b', c', d') \<Rightarrow>
     (a + a', b + b', c + c', d + d'))"

definition mat4_apply :: "mat4 \<Rightarrow> vec4 \<Rightarrow> vec4" where
  "mat4_apply m v = (case m of (c0, c1, c2, c3) \<Rightarrow> case v of (x, y, z, w) \<Rightarrow>
     vec4_add (vec4_add (vec4_add (vec4_scale c0 x) (vec4_scale c1 y)) (vec4_scale c2 z))
       (vec4_scale c3 w))"

definition mat4_mul :: "mat4 \<Rightarrow> mat4 \<Rightarrow> mat4" where
  "mat4_mul a b = (case b of (b0, b1, b2, b3) \<Rightarrow>
     (mat4_apply a b0, mat4_apply a b1, mat4_apply a b2, mat4_apply a b3))"

section \<open>The shader manager\<close>

text \<open>
  Modelled from the spec: \<open>ShaderManager\<close>, a class whose declaration and code are
  not among the files of the repository. As the specification describes it, each
  setter writes one named uniform of the active shader program, and the last writer
  wins. The shader manager is the list of the writes made so far, the latest first: a
  setter puts one write in front, and the current value of a uniform is the latest
  write under its name.
\<close>

datatype uniform =
    UMat4 mat4
  | UInt int
  | UBool bool
  | UFloat float
  | UVec2 vec2
  | UVec3 vec3
  | UVec4 vec4
  | USampler2D int

type_synonym ShaderManager = "(string \<times> uniform) list"

definition setMat4Value :: "string \<Rightarrow> mat4 \<Rightarrow> ShaderManager \<Rightarrow> ShaderManager" where
  "setMat4Value name v sh = (name, UMat4 v) # sh"

definition setIntValue :: "string \<Rightarrow> int \<Rightarrow> ShaderManager \<Rightarrow> ShaderManager" where
  "setIntValue name v sh = (name, UInt v) # sh"

definition setBoolValue :: "string \<Rightarrow> bool \<Rightarrow> ShaderManager \<Rightarrow> ShaderManager" where
  "setBoolValue name v sh = (name, UBool v) # sh"

definition setFloatValue :: "string \<Rightarrow> float \<Rightarrow> ShaderManager \<Rightarrow> ShaderManager" where
  "setFloatValue name v sh = (name, UFloat v) # sh"

definition setVec2Value :: "string \<Rightarrow> vec2 \<Rightarrow> ShaderManager \<Rightarrow> ShaderManager" where
  "setVec2Value name v sh = (name, UVec2 v) # sh"

definition setVec3Value :: "string \<Rightarrow> vec3 \<Rightarrow> ShaderManager \<Rightarrow> ShaderManager" where
  "setVec3Value name v sh = (name, UVec3 v) # sh"

definition setVec4Value :: "string \<Rightarrow> vec4 \<Rightarrow> ShaderManager \<Rightarrow> ShaderManager" where
  "setVec4Value name v sh = (name, UVec4 v) # sh"

definition setSampler2DValue :: "string \<Rightarrow> int \<Rightarrow> ShaderManager \<Rightarrow> ShaderManager" where
  "setSampler2DValue name v sh = (name, USampler2D v) # sh"

definition uniform_value :: "ShaderManager \<Rightarrow> string \<Rightarrow> uniform option" where
  "uniform_value sh name = map_of sh name"

text \<open>The names of the uniforms, from the anonymous namespace at the top of the file.\<close>

definition g_ModelName :: string where "g_ModelName = ''model''"
definition g_ColorValueName :: string where "g_ColorValueName = ''objectColor''"
definition g_TextureValueName :: string where "g_TextureValueName = ''objectTexture''"
definition g_UseTextureName :: string where "g_UseTextureName = ''bUseTexture''"
definition g_UseLightingName :: string where "g_UseLightingName = ''bUseLighting''"

section \<open>The OpenGL context, the mesh provider and the image decoder\<close>

text \<open>
  Modelled from the spec: OpenGL, \<open>ShapeMeshes\<close> and \<open>stb_image\<close>, the services
  the specification treats as opaque. The context keeps the texture names in use and
  the calls issued so far (latest first), the loading and drawing of meshes among them.
  No call of \<open>SceneManager.cpp\<close> frees a name: \<open>glDeleteTextures\<close> is never called.
\<close>

datatype gl_enum =
    GL_TEXTURE_2D
  | GL_TEXTURE_WRAP_S
  | GL_TEXTURE_WRAP_T
  | GL_TEXTURE_MIN_FILTER
  | GL_TEXTURE_MAG_FILTER
  | GL_REPEAT
  | GL_LINEAR
  | GL_RGB8
  | GL_RGBA8
  | GL_RGB
  | GL_RGBA

datatype mesh = BoxMesh | PlaneMesh | CylinderMesh | TorusMesh

datatype gl_call =
    GenTextures GLuint
  | BindTexture gl_enum GLuint
  | TexParameteri gl_enum gl_enum gl_enum
  | TexImage2D gl_enum gl_enum int int gl_enum
  | GenerateMipmap gl_enum
  | ActiveTexture nat
  | LoadMesh mesh
  | DrawMesh mesh

record gl_context =
  gl_names :: "GLuint list"
  gl_calls :: "gl_call list"

text \<open>
  \<open>glGenTextures(1, &id)\<close> returns a name that is not in use and marks it used. Which
  one is the driver's choice; the model takes the least non-zero name not in use (and
  0, which is never a texture name, only when every candidate is taken).
\<close>

definition unused_name :: "GLuint list \<Rightarrow> GLuint" where
  "unused_name used =
     (case find (\<lambda>n. n \<notin> set used) (map of_nat [1 ..< length used + 2]) of
        Some n \<Rightarrow> n
      | None \<Rightarrow> 0)"

definition glGenTextures :: "gl_context \<Rightarrow> GLuint \<times> gl_context" where
  "glGenTextures g =
     (let n = unused_name (gl_names g)
      in (n, g\<lparr>gl_names := n # gl_names g, gl_calls := GenTextures n # gl_calls g\<rparr>))"

definition gl_issue :: "gl_call \<Rightarrow> gl_context \<Rightarrow> gl_context" where
  "gl_issue c g = g\<lparr>gl_calls := c # gl_calls g\<rparr>"

text \<open>What \<open>stbi_load\<close> reports of a decoded image (the pixels are not modelled).\<close>

record stb_image =
  width :: int
  height :: int
  colorChannels :: int

section \<open>The scene manager\<close>

text \<open>
  Modelled from the spec: \<open>TEXTURE_INFO\<close>, \<open>OBJECT_MATERIAL\<close> and the members of
  the class, which \<open>SceneManager.h\<close> declares and the files of the repository do not
  include. The fields are those \<open>SceneManager.cpp\<close> reads and writes, as the data
  model of the specification lists them.
\<close>

record TEXTURE_INFO =
  ID :: GLuint
  tag :: string

record OBJECT_MATERIAL =
  diffuseColor :: vec3
  specularColor :: vec3
  shininess :: float
  tag :: string

text \<open>
  The members of the class. \<open>m_pShaderManager\<close> is a pointer: \<open>None\<close> is the null
  pointer. \<open>m_textureIDs\<close> is a fixed array (of sixteen slots, by the specification
  and the comment of \<open>BindGLTextures\<close>); the length of the list is its capacity, and
  \<open>m_loadedTextures\<close> counts the slots in use. \<open>m_basicMeshes\<close> and the OpenGL
  context are the field \<open>gl\<close>.
\<close>

record SceneManager =
  m_pShaderManager :: "ShaderManager option"
  m_loadedTextures :: int
  m_textureIDs :: "TEXTURE_INFO list"
  m_objectMaterials :: "OBJECT_MATERIAL list"
  gl :: gl_context

text \<open>
  What C++ leaves undefined is a fault of the model: an access to \<open>m_textureIDs\<close>
  outside the array, and a call through a null \<open>m_pShaderManager\<close>.
\<close>

datatype fault = OutOfBounds | NullDereference

subsection \<open>CreateGLTexture\<close>

text \<open>
  \<open>stbi_load\<close> is the first argument: the file name to the decoded image, or \<open>None\<close>
  when the file cannot be read. The messages written to \<open>std::cout\<close> are left out.
\<close>

text \<open>
  The end of the function, after the image is uploaded: mipmaps, unbinding, and the new
  entry written at index \<open>m_loadedTextures\<close>, which is not checked against the array.
\<close>

definition CreateGLTexture_register ::
  "GLuint \<Rightarrow> string \<Rightarrow> gl_context \<Rightarrow> SceneManager \<Rightarrow> fault + (bool \<times> SceneManager)" where
  "CreateGLTexture_register textureID tg g st =
     (let g1 = gl_issue (GenerateMipmap GL_TEXTURE_2D) g;
          g2 = gl_issue (BindTexture GL_TEXTURE_2D 0) g1
      in if 0 \<le> m_loadedTextures st \<and> m_loadedTextures st < int (length (m_textureIDs st))
         then Inr (True, st
           \<lparr>m_textureIDs := (m_textureIDs st)
               [nat (m_loadedTextures st) := \<lparr>ID = textureID, tag = tg\<rparr>],
            m_loadedTextures := m_loadedTextures st + 1,
            gl := g2\<rparr>)
         else Inl OutOfBounds)"

definition CreateGLTexture ::
  "(string \<Rightarrow> stb_image option) \<Rightarrow> string \<Rightarrow> string \<Rightarrow> SceneManager
     \<Rightarrow> fault + (bool \<times> SceneManager)" where
  "CreateGLTexture stbi_load filename tg st =
     (case stbi_load filename of
        Some img \<Rightarrow>
          (case glGenTextures (gl st) of (textureID, g0) \<Rightarrow>
             (let g1 = gl_issue (BindTexture GL_TEXTURE_2D textureID) g0;
                  g2 = gl_issue (TexParameteri GL_TEXTURE_2D GL_TEXTURE_WRAP_S GL_REPEAT) g1;
                  g3 = gl_issue (TexParameteri GL_TEXTURE_2D GL_TEXTURE_WRAP_T GL_REPEAT) g2;
                  g4 = gl_issue (TexParameteri GL_TEXTURE_2D GL_TEXTURE_MIN_FILTER GL_LINEAR) g3;
                  g5 = gl_issue (TexParameteri GL_TEXTURE_2D GL_TEXTURE_MAG_FILTER GL_LINEAR) g4
              in if colorChannels img = 3
                 then CreateGLTexture_register textureID tg
                        (gl_issue (TexImage2D GL_TEXTURE_2D GL_RGB8
                           (width img) (height img) GL_RGB) g5) st
                 else if colorChannels img = 4
                 then CreateGLTexture_register textureID tg
                        (gl_issue (TexImage2D GL_TEXTURE_2D GL_RGBA8
                           (width img) (height img) GL_RGBA) g5) st
                 else Inr (False, st\<lparr>gl := g5\<rparr>)))
      | None \<Rightarrow> Inr (False, st))"

subsection \<open>BindGLTextures and DestroyGLTextures\<close>

text \<open>
  Both loops run \<open>i\<close> from 0 while \<open>i < m_loadedTextures\<close> and index the array with
  it. \<open>i\<close> starts at 0 and only grows, so it is a natural number.
\<close>

function BindGLTextures_loop :: "nat \<Rightarrow> SceneManager \<Rightarrow> fault + SceneManager" where
  "BindGLTextures_loop i st =
     (if int i < m_loadedTextures st
      then (if i < length (m_textureIDs st)
            then BindGLTextures_loop (i + 1)
                   (st\<lparr>gl := gl_issue (BindTexture GL_TEXTURE_2D (ID (m_textureIDs st ! i)))
                                (gl_issue (ActiveTexture i) (gl st))\<rparr>)
            else Inl OutOfBounds)
      else Inr st)"
  by pat_completeness auto
termination
  by (relation "measure (\<lambda>(i, st). nat (m_loadedTextures st - int i))") auto

declare BindGLTextures_loop.simps [simp del]

definition BindGLTextures :: "SceneManager \<Rightarrow> fault + SceneManager" where
  "BindGLTextures st = BindGLTextures_loop 0 st"

function DestroyGLTextures_loop :: "nat \<Rightarrow> SceneManager \<Rightarrow> fault + SceneManager" where
  "DestroyGLTextures_loop i st =
     (if int i < m_loadedTextures st
      then (if i < length (m_textureIDs st)
            then (case glGenTextures (gl st) of (n, g) \<Rightarrow>
                    DestroyGLTextures_loop (i + 1)
                      (st\<lparr>m_textureIDs := (m_textureIDs st)[i := (m_textureIDs st ! i)\<lparr>ID := n\<rparr>],
                          gl := g\<rparr>))
            else Inl OutOfBounds)
      else Inr st)"
  by pat_completeness auto
termination
  by (relation "measure (\<lambda>(i, st). nat (m_loadedTextures st - int i))") auto

declare DestroyGLTextures_loop.simps [simp del]

definition DestroyGLTextures :: "SceneManager \<Rightarrow> fault + SceneManager" where
  "DestroyGLTextures st = DestroyGLTextures_loop 0 st"

subsection \<open>FindTextureID, FindTextureSlot and FindMaterial\<close>

text \<open>
  The three \<open>while\<close> loops, with their locals as arguments. \<open>FindTextureID\<close> returns
  an \<open>int\<close>: the 32 bits of the \<open>GLuint\<close> read as a signed number. \<open>compare(tag) == 0\<close>
  is equality of strings.
\<close>

function FindTextureID_loop ::
  "SceneManager \<Rightarrow> string \<Rightarrow> int \<Rightarrow> nat \<Rightarrow> bool \<Rightarrow> fault + int" where
  "FindTextureID_loop st tg textureID index bFound =
     (if int index < m_loadedTextures st \<and> bFound = False
      then (if index < length (m_textureIDs st)
            then (if TEXTURE_INFO.tag (m_textureIDs st ! index) = tg
                  then FindTextureID_loop st tg (sint (ID (m_textureIDs st ! index))) index True
                  else FindTextureID_loop st tg textureID (index + 1) bFound)
            else Inl OutOfBounds)
      else Inr textureID)"
  by pat_completeness auto
termination
  by (relation "measure (\<lambda>(st, tg, textureID, index, bFound).
        2 * nat (m_loadedTextures st - int index) + (if bFound then 0 else 1))") auto

declare FindTextureID_loop.simps [simp del]

definition FindTextureID :: "string \<Rightarrow> SceneManager \<Rightarrow> fault + int" where
  "FindTextureID tg st = FindTextureID_loop st tg (- 1) 0 False"

function FindTextureSlot_loop ::
  "SceneManager \<Rightarrow> string \<Rightarrow> int \<Rightarrow> nat \<Rightarrow> bool \<Rightarrow> fault + int" where
  "FindTextureSlot_loop st tg textureSlot index bFound =
     (if int index < m_loadedTextures st \<and> bFound = False
      then (if index < length (m_textureIDs st)
            then (if TEXTURE_INFO.tag (m_textureIDs st ! index) = tg
                  then FindTextureSlot_loop st tg (int index) index True
                  else FindTextureSlot_loop st tg textureSlot (index + 1) bFound)
            else Inl OutOfBounds)
      else Inr textureSlot)"
  by pat_completeness auto
termination
  by (relation "measure (\<lambda>(st, tg, textureSlot, index, bFound).
        2 * nat (m_loadedTextures st - int index) + (if bFound then 0 else 1))") auto

declare FindTextureSlot_loop.simps [simp del]

definition FindTextureSlot :: "string \<Rightarrow> SceneManager \<Rightarrow> fault + int" where
  "FindTextureSlot tg st = FindTextureSlot_loop st tg (- 1) 0 False"

text \<open>
  \<open>FindMaterial\<close> fills the material passed by reference: the result is the returned
  flag and the material as the call leaves it.
\<close>

function FindMaterial_loop ::
  "SceneManager \<Rightarrow> string \<Rightarrow> nat \<Rightarrow> bool \<Rightarrow> OBJECT_MATERIAL \<Rightarrow> OBJECT_MATERIAL" where
  "FindMaterial_loop st tg index bFound material =
     (if index < length (m_objectMaterials st) \<and> bFound = False
      then (if OBJECT_MATERIAL.tag (m_objectMaterials st ! index) = tg
            then FindMaterial_loop st tg index True
                   (material
                     \<lparr>diffuseColor := diffuseColor (m_objectMaterials st ! index),
                      specularColor := specularColor (m_objectMaterials st ! index),
                      shininess := shininess (m_objectMaterials st ! index)\<rparr>)
            else FindMaterial_loop st tg (index + 1) bFound material)
      else material)"
  by pat_completeness auto
termination
  by (relation "measure (\<lambda>(st, tg, index, bFound, material).
        2 * (length (m_objectMaterials st) - index) + (if bFound then 0 else 1))") auto

declare FindMaterial_loop.simps [simp del]

definition FindMaterial ::
  "string \<Rightarrow> OBJECT_MATERIAL \<Rightarrow> SceneManager \<Rightarrow> bool \<times> OBJECT_MATERIAL" where
  "FindMaterial tg material st =
     (if length (m_objectMaterials st) = 0
      then (False, material)
      else (True, FindMaterial_loop st tg 0 False material))"

subsection \<open>The setters of the shader state\<close>

definition SetTransformations ::
  "vec3 \<Rightarrow> float \<Rightarrow> float \<Rightarrow> float \<Rightarrow> vec3 \<Rightarrow> SceneManager \<Rightarrow> SceneManager" where
  "SetTransformations scaleXYZ XrotationDegrees YrotationDegrees ZrotationDegrees positionXYZ st =
     (let scale = glm_scale scaleXYZ;
          rotationX = glm_rotate (glm_radians XrotationDegrees) (1, 0, 0);
          rotationY = glm_rotate (glm_radians YrotationDegrees) (0, 1, 0);
          rotationZ = glm_rotate (glm_radians ZrotationDegrees) (0, 0, 1);
          translation = glm_translate positionXYZ;
          modelView = mat4_mul (mat4_mul (mat4_mul (mat4_mul translation rotationZ) rotationY)
                        rotationX) scale
      in case m_pShaderManager st of
           Some sh \<Rightarrow> st\<lparr>m_pShaderManager := Some (setMat4Value g_ModelName modelView sh)\<rparr>
         | None \<Rightarrow> st)"

text \<open>\<open>setIntValue\<close> takes an \<open>int\<close>: \<open>false\<close> is passed as 0 and \<open>true\<close> as 1.\<close>

definition SetShaderColor :: "float \<Rightarrow> float \<Rightarrow> float \<Rightarrow> float \<Rightarrow> SceneManager \<Rightarrow> SceneManager" where
  "SetShaderColor redColorValue greenColorValue blueColorValue alphaValue st =
     (let currentColor = (redColorValue, greenColorValue, blueColorValue, alphaValue)
      in case m_pShaderManager st of
           Some sh \<Rightarrow> st\<lparr>m_pShaderManager :=
             Some (setVec4Value g_ColorValueName currentColor
                    (setIntValue g_UseTextureName (of_bool False) sh))\<rparr>
         | None \<Rightarrow> st)"

definition SetShaderTexture :: "string \<Rightarrow> SceneManager \<Rightarrow> fault + SceneManager" where
  "SetShaderTexture textureTag st =
     (case m_pShaderManager st of
        Some sh \<Rightarrow>
          (let sh1 = setIntValue g_UseTextureName (of_bool True) sh
           in case FindTextureSlot textureTag st of
                Inr textureID \<Rightarrow> Inr (st\<lparr>m_pShaderManager :=
                  Some (setSampler2DValue g_TextureValueName textureID sh1)\<rparr>)
              | Inl e \<Rightarrow> Inl e)
      | None \<Rightarrow> Inr st)"

definition SetTextureUVScale :: "float \<Rightarrow> float \<Rightarrow> SceneManager \<Rightarrow> SceneManager" where
  "SetTextureUVScale u v st =
     (case m_pShaderManager st of
        Some sh \<Rightarrow> st\<lparr>m_pShaderManager := Some (setVec2Value ''UVscale'' (u, v) sh)\<rparr>
      | None \<Rightarrow> st)"

text \<open>
  The local \<open>OBJECT_MATERIAL material\<close> is declared without an initialiser. What it
  holds before \<open>FindMaterial\<close> is called is the first argument of the model. The
  shader manager is used without a null check.
\<close>

definition SetShaderMaterial ::
  "OBJECT_MATERIAL \<Rightarrow> string \<Rightarrow> SceneManager \<Rightarrow> fault + SceneManager" where
  "SetShaderMaterial material0 materialTag st =
     (if length (m_objectMaterials st) > 0
      then (case FindMaterial materialTag material0 st of (bReturn, material) \<Rightarrow>
              if bReturn = True
              then (case m_pShaderManager st of
                      Some sh \<Rightarrow> Inr (st\<lparr>m_pShaderManager := Some
                        (setFloatValue ''material.shininess'' (shininess material)
                          (setVec3Value ''material.specularColor'' (specularColor material)
                            (setVec3Value ''material.diffuseColor'' (diffuseColor material)
                              sh)))\<rparr>)
                    | None \<Rightarrow> Inl NullDereference)
              else Inr st)
      else Inr st)"

subsection \<open>The scene script\<close>

text \<open>
  Straight-line code is a list of steps run in order; a fault ends the run.
\<close>

fun run :: "(SceneManager \<Rightarrow> fault + SceneManager) list \<Rightarrow> SceneManager \<Rightarrow> fault + SceneManager" where
  "run [] st = Inr st"
| "run (f # fs) st = (case f st of Inr st' \<Rightarrow> run fs st' | Inl e \<Rightarrow> Inl e)"

definition total :: "(SceneManager \<Rightarrow> SceneManager) \<Rightarrow> SceneManager \<Rightarrow> fault + SceneManager" where
  "total f st = Inr (f st)"

text \<open>\<open>bReturn = CreateGLTexture(...)\<close>: the flag is stored and never read.\<close>

definition ignoring_bReturn ::
  "(SceneManager \<Rightarrow> fault + (bool \<times> SceneManager)) \<Rightarrow> SceneManager \<Rightarrow> fault + SceneManager" where
  "ignoring_bReturn f st = (case f st of Inr (bReturn, st') \<Rightarrow> Inr st' | Inl e \<Rightarrow> Inl e)"

definition LoadMeshOf :: "mesh \<Rightarrow> SceneManager \<Rightarrow> SceneManager" where
  "LoadMeshOf m st = st\<lparr>gl := gl_issue (LoadMesh m) (gl st)\<rparr>"

definition DrawMeshOf :: "mesh \<Rightarrow> SceneManager \<Rightarrow> SceneManager" where
  "DrawMeshOf m st = st\<lparr>gl := gl_issue (DrawMesh m) (gl st)\<rparr>"

definition LoadSceneTextures ::
  "(string \<Rightarrow> stb_image option) \<Rightarrow> SceneManager \<Rightarrow> fault + SceneManager" where
  "LoadSceneTextures stbi_load = run
     [ignoring_bReturn (CreateGLTexture stbi_load ''textures/leather1.jpg'' ''dash''),
      ignoring_bReturn (CreateGLTexture stbi_load ''textures/tesla_screen.jpg'' ''screen''),
      ignoring_bReturn (CreateGLTexture stbi_load ''textures/leatherwhite.jpg'' ''base''),
      ignoring_bReturn (CreateGLTexture stbi_load ''textures/metalgrid.jpg'' ''ground''),
      ignoring_bReturn (CreateGLTexture stbi_load ''textures/grayleather.jpg'' ''dashText''),
      ignoring_bReturn (CreateGLTexture stbi_load ''textures/black_plastic.jpg'' ''plastic''),
      ignoring_bReturn (CreateGLTexture stbi_load ''textures/steering_wheel.jpg'' ''wheel''),
      BindGLTextures]"

definition DefineObjectMaterials :: "SceneManager \<Rightarrow> SceneManager" where
  "DefineObjectMaterials st =
     (let matteBlack = \<lparr>diffuseColor = (0.1, 0.1, 0.1), specularColor = (0.1, 0.1, 0.1),
                        shininess = 8.0, tag = ''matteblack''\<rparr>;
          polishWhite = \<lparr>diffuseColor = (0.95, 0.95, 0.95), specularColor = (0.5, 0.5, 0.5),
                         shininess = 32.0, tag = ''polishwhite''\<rparr>;
          glassScreen = \<lparr>diffuseColor = (0.1, 0.1, 0.1), specularColor = (0.9, 0.9, 0.9),
                         shininess = 128.0, tag = ''glassscreen''\<rparr>;
          greyLeather = \<lparr>diffuseColor = (0.3, 0.3, 0.3), specularColor = (0.1, 0.1, 0.1),
                         shininess = 4.0, tag = ''dashmat''\<rparr>;
          plastic = \<lparr>diffuseColor = (0.15, 0.15, 0.15), specularColor = (0.3, 0.3, 0.3),
                     shininess = 16.0, tag = ''plastic''\<rparr>
      in st\<lparr>m_objectMaterials :=
              m_objectMaterials st @ [matteBlack] @ [polishWhite] @ [glassScreen]
                @ [greyLeather] @ [plastic]\<rparr>)"

text \<open>\<open>SetupSceneLights\<close> calls through \<open>m_pShaderManager\<close> without a null check.\<close>

definition SetupSceneLights :: "SceneManager \<Rightarrow> fault + SceneManager" where
  "SetupSceneLights st =
     (case m_pShaderManager st of
        None \<Rightarrow> Inl NullDereference
      | Some sh \<Rightarrow> Inr (st\<lparr>m_pShaderManager := Some
          (setBoolValue ''pointLights[0].bActive'' True
          (setVec3Value ''pointLights[0].specular'' (0.2, 0.2, 0.2)
          (setVec3Value ''pointLights[0].diffuse'' (1.0, 1.0, 1.0)
          (setVec3Value ''pointLights[0].ambient'' (0.05, 0.05, 0.05)
          (setVec3Value ''pointLights[0].position'' (0.0, 2.5, - 2.0)
          (setBoolValue ''directionalLight.bActive'' True
          (setVec3Value ''directionalLight.specular'' (0.2, 0.2, 0.2)
          (setVec3Value ''directionalLight.diffuse'' (0.8, 0.8, 0.8)
          (setVec3Value ''directionalLight.ambient'' (0.1, 0.0, 0.1)
          (setVec3Value ''directionalLight.direction'' (0.2, - 0.2, - 0.5)
          (setBoolValue g_UseLightingName True sh)))))))))))\<rparr>))"

definition PrepareScene ::
  "(string \<Rightarrow> stb_image option) \<Rightarrow> SceneManager \<Rightarrow> fault + SceneManager" where
  "PrepareScene stbi_load = run
     [total DefineObjectMaterials,
      LoadSceneTextures stbi_load,
      SetupSceneLights,
      total (LoadMeshOf BoxMesh),
      total (LoadMeshOf PlaneMesh),
      total (LoadMeshOf CylinderMesh),
      total (LoadMeshOf TorusMesh)]"

text \<open>
  \<open>RenderScene\<close>, block by block. Each call of \<open>SetShaderMaterial\<close> has a local
  of its own: \<open>material0 k\<close> is what the local of the \<open>k\<close>-th call (from 0) holds at
  its declaration.
\<close>

definition RenderScene :: "(nat \<Rightarrow> OBJECT_MATERIAL) \<Rightarrow> SceneManager \<Rightarrow> fault + SceneManager" where
  "RenderScene material0 = run
     [total (SetTransformations (20.0, 1.0, 10.0) 0.0 0.0 0.0 (0.0, 0.0, 0.0)),
      SetShaderMaterial (material0 0) ''dashmat'',
      SetShaderTexture ''ground'',
      total (DrawMeshOf PlaneMesh),

      total (SetTransformations (2.8, 0.12, 0.6) 20.0 0.0 0.0 (0.0, 0.8, - 1.5)),
      SetShaderMaterial (material0 1) ''dashmat'',
      SetShaderTexture ''dash'',
      total (SetTextureUVScale 3.0 1.0),
      total (DrawMeshOf CylinderMesh),

      total (SetTransformations (2.8, 0.02, 0.2) 5.0 0.0 0.0 (0.0, 0.95, - 1.4)),
      SetShaderMaterial (material0 2) ''metal'',
      total (SetShaderColor 0.15 0.15 0.15 1.0),
      total (DrawMeshOf BoxMesh),

      total (SetTransformations (0.49, 0.65, 0.04) 5.0 0.0 0.0 (0.0, 0.9, - 0.85)),
      SetShaderMaterial (material0 3) ''plastic'',
      total (SetShaderColor 0.05 0.05 0.05 1.0),
      total (DrawMeshOf BoxMesh),

      total (SetTransformations (0.47, 0.63, 0.02) 5.0 0.0 0.0 (0.0, 0.9, - 0.83)),
      SetShaderMaterial (material0 4) ''glassscreen'',
      SetShaderTexture ''screen'',
      total (SetTextureUVScale 1.0 1.0),
      total (DrawMeshOf BoxMesh),

      total (SetTransformations (0.26, 0.26, 0.05) 20.0 0.0 0.0 (- 0.65, 0.85, - 0.7)),
      SetShaderMaterial (material0 5) ''plastic'',
      SetShaderTexture ''wheel'',
      total (DrawMeshOf TorusMesh),

      total (SetTransformations (0.04, 0.41, 0.04) (- 90.0) 0.0 0.0 (- 0.65, 0.85, - 0.7)),
      SetShaderMaterial (material0 6) ''matteblack'',
      total (DrawMeshOf CylinderMesh),

      total (SetTransformations (0.12, 0.12, 0.05) 20.0 0.0 0.0 (- 0.65, 0.85, - 0.7)),
      SetShaderMaterial (material0 7) ''plastic'',
      total (SetShaderColor 0.2 0.2 0.2 1.0),
      total (DrawMeshOf BoxMesh),

      total (SetTransformations (0.5, 0.1, 0.5) 0.0 0.0 0.0 (- 0.7, 0.1, 0.0)),
      SetShaderMaterial (material0 8) ''dashmat'',
      SetShaderTexture ''dash'',
      total (DrawMeshOf BoxMesh),

      total (SetTransformations (0.5, 0.7, 0.1) 15.0 0.0 0.0 (- 0.699, 0.5, 0.35)),
      SetShaderMaterial (material0 9) ''dashmat'',
      SetShaderTexture ''dash'',
      total (DrawMeshOf BoxMesh),

      total (SetTransformations (0.3, 0.25, 1.8) 0.0 0.0 0.0 (0.0, 0.2, - 0.2)),
      SetShaderMaterial (material0 10) ''plastic'',
      total (SetShaderColor 0.1 0.1 0.1 1.0),
      total (DrawMeshOf BoxMesh),

      total (SetTransformations (0.2, 0.1, 0.2) 0.0 0.0 0.0 (0.0, 0.3, 0.4)),
      SetShaderMaterial (material0 11) ''matteblack'',
      total (DrawMeshOf BoxMesh)]"

section \<open>States used as concrete inputs\<close>

text \<open>
  A scene manager in which nothing is loaded yet: sixteen unused texture slots, no
  material, a fresh OpenGL context, and the given shader manager pointer.
\<close>

definition blank_scene :: "ShaderManager option \<Rightarrow> SceneManager" where
  "blank_scene p =
     \<lparr>m_pShaderManager = p,
      m_loadedTextures = 0,
      m_textureIDs = replicate 16 \<lparr>ID = 0, tag = []\<rparr>,
      m_objectMaterials = [],
      gl = \<lparr>gl_names = [], gl_calls = []\<rparr>\<rparr>"

text \<open>
  A decoder under which the seven files of the scene load (one of them with an alpha
  channel), a grey-scale file decodes to one channel, and nothing else can be read.
\<close>

definition example_files :: "string \<Rightarrow> stb_image option" where
  "example_files filename =
     (if filename \<in> set [''textures/leather1.jpg'', ''textures/leatherwhite.jpg'',
           ''textures/metalgrid.jpg'', ''textures/grayleather.jpg'',
           ''textures/black_plastic.jpg'', ''textures/steering_wheel.jpg'']
      then Some \<lparr>width = 512, height = 512, colorChannels = 3\<rparr>
      else if filename = ''textures/tesla_screen.jpg''
      then Some \<lparr>width = 1024, height = 640, colorChannels = 4\<rparr>
      else if filename = ''textures/gray.png''
      then Some \<lparr>width = 64, height = 64, colorChannels = 1\<rparr>
      else None)"

text \<open>Some contents of an uninitialised local material.\<close>

definition stale_material :: OBJECT_MATERIAL where
  "stale_material =
     \<lparr>diffuseColor = (7, 7, 7), specularColor = (8, 8, 8), shininess = 9, tag = []\<rparr>"

text \<open>
  A registry of three textures in which the tag \<open>dash\<close> is borne twice, and the
  outcome of loading one more texture under that tag.
\<close>

definition twice_dash_scene :: SceneManager where
  "twice_dash_scene = (blank_scene None)
     \<lparr>m_loadedTextures := 3,
      m_textureIDs := [\<lparr>ID = 1, tag = ''base''\<rparr>, \<lparr>ID = 2, tag = ''dash''\<rparr>,
                       \<lparr>ID = 3, tag = ''dash''\<rparr>] @ replicate 13 \<lparr>ID = 0, tag = []\<rparr>,
      gl := \<lparr>gl_names = [3, 2, 1], gl_calls = []\<rparr>\<rparr>"

definition dash_loaded_again :: "fault + bool \<times> SceneManager" where
  "dash_loaded_again =
     CreateGLTexture example_files ''textures/leather1.jpg'' ''dash'' twice_dash_scene"

text \<open>The state \<open>PrepareScene\<close> leaves when run on these.\<close>

definition prepared_scene :: SceneManager where
  "prepared_scene = projr (PrepareScene example_files (blank_scene (Some [])))"

section \<open>Conditions on states and steps\<close>

text \<open>
  A state is ready for drawing when the loaded textures are within the array and a
  shader manager is bound. A state extends another when the two registries are the
  same and the shader manager has taken further writes on top of the earlier ones. A
  step is safe when from every ready state it returns a state that extends it.
\<close>

definition ready :: "SceneManager \<Rightarrow> bool" where
  "ready st \<longleftrightarrow>
     m_loadedTextures st \<le> int (length (m_textureIDs st)) \<and> m_pShaderManager st \<noteq> None"

definition extends :: "SceneManager \<Rightarrow> SceneManager \<Rightarrow> bool" where
  "extends st st' \<longleftrightarrow>
     m_loadedTextures st' = m_loadedTextures st
     \<and> m_textureIDs st' = m_textureIDs st
     \<and> m_objectMaterials st' = m_objectMaterials st
     \<and> (\<exists>sh ws. m_pShaderManager st = Some sh \<and> m_pShaderManager st' = Some (ws @ sh))"

definition safe_step :: "(SceneManager \<Rightarrow> fault + SceneManager) \<Rightarrow> bool" where
  "safe_step f \<longleftrightarrow> (\<forall>st. ready st \<longrightarrow> (\<exists>st'. f st = Inr st' \<and> extends st st'))"

section \<open>The material registry\<close>

lemma FindMaterial_loop_no_match:
  "(\<And>j. index \<le> j \<Longrightarrow> j < length (m_objectMaterials st) \<Longrightarrow>
        OBJECT_MATERIAL.tag (m_objectMaterials st ! j) \<noteq> tg)
   \<Longrightarrow> FindMaterial_loop st tg index False material = material"
proof (induction "length (m_objectMaterials st) - index" arbitrary: index)
  case 0
  then show ?case by (subst FindMaterial_loop.simps) simp
next
  case (Suc k)
  from Suc.hyps(2) have lt: "index < length (m_objectMaterials st)" by simp
  have ne: "OBJECT_MATERIAL.tag (m_objectMaterials st ! index) \<noteq> tg"
    using Suc.prems [of index] lt by simp
  have "FindMaterial_loop st tg (index + 1) False material = material"
  proof (rule Suc.hyps(1))
    show "k = length (m_objectMaterials st) - (index + 1)" using Suc.hyps(2) by simp
  next
    fix j assume "index + 1 \<le> j" "j < length (m_objectMaterials st)"
    then show "OBJECT_MATERIAL.tag (m_objectMaterials st ! j) \<noteq> tg"
      using Suc.prems [of j] by simp
  qed
  then show ?case using lt ne by (subst FindMaterial_loop.simps) simp
qed

lemma FindMaterial_unmatched:
  assumes "m_objectMaterials st \<noteq> []"
    and "\<forall>e \<in> set (m_objectMaterials st). OBJECT_MATERIAL.tag e \<noteq> tg"
  shows "FindMaterial tg material st = (True, material)"
proof -
  have "FindMaterial_loop st tg 0 False material = material"
    using assms(2) by (intro FindMaterial_loop_no_match) simp
  with assms(1) show ?thesis by (simp add: FindMaterial_def)
qed

text \<open>
  C1. \<open>FindMaterial\<close> returns false on an empty registry and true on every non-empty
  one, also when no entry bears the tag; in that case the material passed by reference
  comes back as it went in: no entry is copied into it.
\<close>

theorem FindMaterial_reports_found_whenever_nonempty:
  "(m_objectMaterials st = [] \<longrightarrow> FindMaterial tg material st = (False, material))
   \<and> (m_objectMaterials st \<noteq> [] \<longrightarrow> fst (FindMaterial tg material st) = True)
   \<and> (m_objectMaterials st \<noteq> []
        \<and> (\<forall>e \<in> set (m_objectMaterials st). OBJECT_MATERIAL.tag e \<noteq> tg)
      \<longrightarrow> FindMaterial tg material st = (True, material))"
proof (intro conjI impI)
  assume "m_objectMaterials st = []"
  then show "FindMaterial tg material st = (False, material)"
    by (simp add: FindMaterial_def)
next
  assume "m_objectMaterials st \<noteq> []"
  then show "fst (FindMaterial tg material st) = True"
    by (simp add: FindMaterial_def)
next
  assume "m_objectMaterials st \<noteq> []
     \<and> (\<forall>e \<in> set (m_objectMaterials st). OBJECT_MATERIAL.tag e \<noteq> tg)"
  then show "FindMaterial tg material st = (True, material)"
    by (intro FindMaterial_unmatched) simp_all
qed

theorem FindMaterial_reports_found_witness:
  "FindMaterial ''metal'' stale_material (blank_scene None) = (False, stale_material)
   \<and> FindMaterial ''metal'' stale_material (DefineObjectMaterials (blank_scene None))
       = (True, stale_material)"
  using FindMaterial_reports_found_whenever_nonempty
          [of "blank_scene None" "''metal''" stale_material]
        FindMaterial_reports_found_whenever_nonempty
          [of "DefineObjectMaterials (blank_scene None)" "''metal''" stale_material]
  by (simp add: blank_scene_def DefineObjectMaterials_def)

section \<open>Loading a texture that cannot be uploaded\<close>

text \<open>
  C2. When the decoded image has neither 3 nor 4 channels, \<open>CreateGLTexture\<close> returns
  false, and the entry table and the count of loaded textures are what they were.
\<close>

theorem CreateGLTexture_unsupported_channels:
  assumes "stbi_load filename = Some img"
    and "colorChannels img \<noteq> 3" and "colorChannels img \<noteq> 4"
  shows "\<exists>st'. CreateGLTexture stbi_load filename tg st = Inr (False, st')
           \<and> m_textureIDs st' = m_textureIDs st
           \<and> m_loadedTextures st' = m_loadedTextures st"
  using assms by (simp add: CreateGLTexture_def Let_def split: prod.splits)

theorem CreateGLTexture_unsupported_witness:
  "\<exists>st'. CreateGLTexture example_files ''textures/gray.png'' ''gray'' (blank_scene None)
           = Inr (False, st')
         \<and> m_textureIDs st' = m_textureIDs (blank_scene None)
         \<and> m_loadedTextures st' = 0"
  using CreateGLTexture_unsupported_channels
          [of example_files "''textures/gray.png''"
              "\<lparr>width = 64, height = 64, colorChannels = 1\<rparr>" "''gray''" "blank_scene None"]
  by (simp add: example_files_def blank_scene_def)

section \<open>The model matrix\<close>

lemma glm_rotate_zero:
  "glm_rotate (glm_radians 0) (1, 0, 0) = mat4_identity"
  "glm_rotate (glm_radians 0) (0, 1, 0) = mat4_identity"
  "glm_rotate (glm_radians 0) (0, 0, 1) = mat4_identity"
  by (simp_all add: glm_rotate_def glm_radians_def glm_normalize_def mat4_identity_def Let_def)

lemma glm_scale_one: "glm_scale (1, 1, 1) = mat4_identity"
  by (simp add: glm_scale_def mat4_identity_def)

lemma glm_translate_zero: "glm_translate (0, 0, 0) = mat4_identity"
  by (simp add: glm_translate_def mat4_identity_def)

lemma mat4_mul_identity: "mat4_mul mat4_identity mat4_identity = mat4_identity"
  by (simp add: mat4_mul_def mat4_apply_def vec4_add_def vec4_scale_def mat4_identity_def)

text \<open>
  The sense of rotation the specification fixes: with a quarter turn about X and a
  translation, the matrix written takes the local point (0, 1, 0) to the position
  offset by (0, 0, 1).
\<close>

lemma glm_radians_90: "glm_radians 90 = pi / 2"
  by (simp add: glm_radians_def)

lemma glm_rotate_quarter_turn_X:
  "glm_rotate (glm_radians 90) (1, 0, 0)
     = ((1, 0, 0, 0), (0, 0, 1, 0), (0, - 1, 0, 0), (0, 0, 0, 1))"
  by (simp add: glm_radians_90 glm_rotate_def glm_normalize_def Let_def)

lemma quarter_turn_about_X_then_translation:
  "m_pShaderManager st = Some sh \<Longrightarrow>
   uniform_value (the (m_pShaderManager (SetTransformations (1, 1, 1) 90 0 0 (px, py, pz) st)))
     g_ModelName = Some (UMat4 m)
   \<Longrightarrow> mat4_apply m (0, 1, 0, 1) = (px, py, pz + 1, 1)"
  by (auto simp: SetTransformations_def Let_def setMat4Value_def uniform_value_def
      glm_rotate_quarter_turn_X glm_rotate_zero glm_scale_one glm_translate_def
      mat4_mul_def mat4_apply_def vec4_add_def vec4_scale_def mat4_identity_def)

text \<open>
  C3. With a shader manager bound, \<open>SetTransformations\<close> changes nothing but the
  shader: it writes to the uniform \<open>model\<close> the product translation, rotation about Z,
  rotation about Y, rotation about X, scale (angles in degrees), a matrix that depends
  on the five arguments only. For scale (1, 1, 1), no rotation and position (0, 0, 0)
  the matrix written is the identity. With no shader manager there is no uniform to
  write, and the call changes nothing.
\<close>

theorem SetTransformations_model_matrix:
  "(m_pShaderManager st = Some sh \<longrightarrow>
      SetTransformations scaleXYZ xDeg yDeg zDeg positionXYZ st
        = st\<lparr>m_pShaderManager := Some ((g_ModelName, UMat4
            (mat4_mul (mat4_mul (mat4_mul (mat4_mul
               (glm_translate positionXYZ)
               (glm_rotate (glm_radians zDeg) (0, 0, 1)))
               (glm_rotate (glm_radians yDeg) (0, 1, 0)))
               (glm_rotate (glm_radians xDeg) (1, 0, 0)))
               (glm_scale scaleXYZ))) # sh)\<rparr>
      \<and> uniform_value (the (m_pShaderManager (SetTransformations (1, 1, 1) 0 0 0 (0, 0, 0) st)))
            g_ModelName = Some (UMat4 mat4_identity))
   \<and> (m_pShaderManager st = None \<longrightarrow>
        SetTransformations scaleXYZ xDeg yDeg zDeg positionXYZ st = st)"
  by (simp add: SetTransformations_def Let_def setMat4Value_def uniform_value_def
      glm_scale_one glm_translate_zero glm_rotate_zero mat4_mul_identity)

theorem SetTransformations_model_matrix_witness:
  "SetTransformations (1, 1, 1) 0 0 0 (0, 0, 0) (blank_scene (Some []))
     = (blank_scene (Some []))\<lparr>m_pShaderManager := Some [(g_ModelName, UMat4 mat4_identity)]\<rparr>
   \<and> uniform_value
     (the (m_pShaderManager (SetTransformations (1, 1, 1) 0 0 0 (0, 0, 0) (blank_scene (Some [])))))
     g_ModelName = Some (UMat4 mat4_identity)
   \<and> SetTransformations (1, 1, 1) 0 0 0 (0, 0, 0) (blank_scene None) = blank_scene None"
  using SetTransformations_model_matrix
          [of "blank_scene (Some [])" "[]" "(1, 1, 1)" 0 0 0 "(0, 0, 0)"]
        SetTransformations_model_matrix
          [of "blank_scene None" "[]" "(1, 1, 1)" 0 0 0 "(0, 0, 0)"]
  by (simp add: blank_scene_def glm_rotate_zero mat4_mul_identity uniform_value_def
        glm_scale_one glm_translate_zero)

section \<open>Lookups in a registry within its array\<close>

lemma FindTextureSlot_loop_returns:
  "m_loadedTextures st \<le> int (length (m_textureIDs st))
   \<Longrightarrow> \<exists>r. FindTextureSlot_loop st tg textureSlot index bFound = Inr r"
proof (induction st tg textureSlot index bFound rule: FindTextureSlot_loop.induct)
  case (1 st tg textureSlot index bFound)
  show ?case
  proof (cases "int index < m_loadedTextures st \<and> bFound = False")
    case False
    then show ?thesis by (subst FindTextureSlot_loop.simps) auto
  next
    case running: True
    then have inb: "index < length (m_textureIDs st)" using "1.prems" by linarith
    show ?thesis
    proof (cases "TEXTURE_INFO.tag (m_textureIDs st ! index) = tg")
      case True
      from "1.IH"(1) [OF running inb True "1.prems"]
      show ?thesis using running inb True
        by (subst FindTextureSlot_loop.simps) simp
    next
      case False
      from "1.IH"(2) [OF running inb False "1.prems"]
      show ?thesis using running inb False
        by (subst FindTextureSlot_loop.simps) simp
    qed
  qed
qed

lemma FindTextureSlot_returns:
  "m_loadedTextures st \<le> int (length (m_textureIDs st))
   \<Longrightarrow> \<exists>r. FindTextureSlot tg st = Inr r"
  unfolding FindTextureSlot_def by (rule FindTextureSlot_loop_returns)

section \<open>Flat colour and texture\<close>

text \<open>
  C6. With a shader manager bound (and the loaded textures within the array, so that
  the slot lookup of \<open>SetShaderTexture\<close> returns), the uniform \<open>bUseTexture\<close> is 0
  (false) after \<open>SetShaderColor\<close> and 1 (true) after \<open>SetShaderTexture\<close>: one call
  leaves one value of the one flag. With no shader manager there is no flag, and
  neither call changes anything.
\<close>

theorem use_texture_flag_after_color_and_texture:
  "(m_pShaderManager st = Some sh \<and> m_loadedTextures st \<le> int (length (m_textureIDs st)) \<longrightarrow>
      uniform_value (the (m_pShaderManager (SetShaderColor r g b a st))) g_UseTextureName
        = Some (UInt 0)
      \<and> (\<exists>st'. SetShaderTexture tg st = Inr st'
            \<and> uniform_value (the (m_pShaderManager st')) g_UseTextureName = Some (UInt 1)))
   \<and> (m_pShaderManager st = None \<longrightarrow>
        SetShaderColor r g b a st = st \<and> SetShaderTexture tg st = Inr st)"
proof -
  have bound: "uniform_value (the (m_pShaderManager (SetShaderColor r g b a st))) g_UseTextureName
        = Some (UInt 0)
      \<and> (\<exists>st'. SetShaderTexture tg st = Inr st'
            \<and> uniform_value (the (m_pShaderManager st')) g_UseTextureName = Some (UInt 1))"
    if sh: "m_pShaderManager st = Some sh"
      and inb: "m_loadedTextures st \<le> int (length (m_textureIDs st))"
  proof -
    obtain slot where "FindTextureSlot tg st = Inr slot"
      using FindTextureSlot_returns [OF inb] by blast
    then show ?thesis
      using sh
      by (simp add: SetShaderColor_def SetShaderTexture_def uniform_value_def Let_def
          setVec4Value_def setIntValue_def setSampler2DValue_def
          g_UseTextureName_def g_ColorValueName_def g_TextureValueName_def)
  qed
  have null: "SetShaderColor r g b a st = st \<and> SetShaderTexture tg st = Inr st"
    if "m_pShaderManager st = None"
    using that by (simp add: SetShaderColor_def SetShaderTexture_def)
  from bound null show ?thesis by blast
qed

theorem use_texture_flag_witness:
  "uniform_value (the (m_pShaderManager (SetShaderColor 1 0 0 1 (blank_scene (Some [])))))
     g_UseTextureName = Some (UInt 0)
   \<and> (\<exists>st'. SetShaderTexture ''dash'' (blank_scene (Some [])) = Inr st'
         \<and> uniform_value (the (m_pShaderManager st')) g_UseTextureName = Some (UInt 1))
   \<and> SetShaderColor 1 0 0 1 (blank_scene None) = blank_scene None
   \<and> SetShaderTexture ''dash'' (blank_scene None) = Inr (blank_scene None)"
  using use_texture_flag_after_color_and_texture
          [of "blank_scene (Some [])" "[]" 1 0 0 1 "''dash''"]
        use_texture_flag_after_color_and_texture
          [of "blank_scene None" "[]" 1 0 0 1 "''dash''"]
  by (simp add: blank_scene_def)

section \<open>Materials and the shader manager pointer\<close>

text \<open>
  C8. With no material defined, \<open>SetShaderMaterial\<close> returns without a fault and
  leaves the whole state, the uniforms written so far included, as it was, for every
  tag and whether or not a shader manager is bound.
\<close>

theorem SetShaderMaterial_empty_registry:
  "m_objectMaterials st = [] \<Longrightarrow> SetShaderMaterial material0 tg st = Inr st"
  by (simp add: SetShaderMaterial_def)

theorem SetShaderMaterial_empty_registry_witness:
  "SetShaderMaterial stale_material ''metal'' (blank_scene None) = Inr (blank_scene None)"
  using SetShaderMaterial_empty_registry [of "blank_scene None" stale_material "''metal''"]
  by (simp add: blank_scene_def)

text \<open>
  C9. With a material defined and the shader manager pointer null,
  \<open>SetShaderMaterial\<close> reaches its uniform writes and calls through the null pointer,
  whatever the tag; \<open>SetTransformations\<close>, \<open>SetShaderColor\<close>, \<open>SetShaderTexture\<close>
  and \<open>SetTextureUVScale\<close> test the pointer and do nothing.
\<close>

theorem SetShaderMaterial_null_shader:
  assumes "m_objectMaterials st \<noteq> []" and "m_pShaderManager st = None"
  shows "SetShaderMaterial material0 tg st = Inl NullDereference
         \<and> SetTransformations s xd yd zd p st = st
         \<and> SetShaderColor r g b a st = st
         \<and> SetShaderTexture tg' st = Inr st
         \<and> SetTextureUVScale u v st = st"
  using assms
  by (simp add: SetShaderMaterial_def FindMaterial_def SetTransformations_def Let_def
      SetShaderColor_def SetShaderTexture_def SetTextureUVScale_def)

theorem SetShaderMaterial_null_shader_witness:
  "SetShaderMaterial stale_material ''dashmat'' (DefineObjectMaterials (blank_scene None))
     = Inl NullDereference
   \<and> SetTransformations (1, 1, 1) 0 0 0 (0, 0, 0) (DefineObjectMaterials (blank_scene None))
     = DefineObjectMaterials (blank_scene None)
   \<and> SetShaderColor 1 0 0 1 (DefineObjectMaterials (blank_scene None))
     = DefineObjectMaterials (blank_scene None)
   \<and> SetShaderTexture ''dash'' (DefineObjectMaterials (blank_scene None))
     = Inr (DefineObjectMaterials (blank_scene None))
   \<and> SetTextureUVScale 3 1 (DefineObjectMaterials (blank_scene None))
     = DefineObjectMaterials (blank_scene None)"
  using SetShaderMaterial_null_shader
     [of "DefineObjectMaterials (blank_scene None)" stale_material "''dashmat''"
         "(1, 1, 1)" 0 0 0 "(0, 0, 0)" 1 0 0 1 "''dash''" 3 1]
  by (simp add: blank_scene_def DefineObjectMaterials_def)

section \<open>The first entry under a tag\<close>

lemma FindTextureSlot_loop_first:
  assumes "index \<le> i" and "int i < m_loadedTextures st" and "i < length (m_textureIDs st)"
    and "TEXTURE_INFO.tag (m_textureIDs st ! i) = tg"
    and "\<And>k. index \<le> k \<Longrightarrow> k < i \<Longrightarrow> TEXTURE_INFO.tag (m_textureIDs st ! k) \<noteq> tg"
  shows "FindTextureSlot_loop st tg textureSlot index False = Inr (int i)"
  using assms
proof (induction "i - index" arbitrary: index textureSlot)
  case 0
  then have eq: "index = i" by simp
  have "FindTextureSlot_loop st tg (int i) i True = Inr (int i)"
    by (subst FindTextureSlot_loop.simps) simp
  then show ?case using 0 eq
    by (subst FindTextureSlot_loop.simps) simp
next
  case (Suc d)
  then have lt: "index < i" by simp
  have ne: "TEXTURE_INFO.tag (m_textureIDs st ! index) \<noteq> tg"
    using Suc.prems(5) [of index] lt by simp
  have "FindTextureSlot_loop st tg textureSlot (index + 1) False = Inr (int i)"
  proof (rule Suc.hyps(1))
    show "d = i - (index + 1)" using Suc.hyps(2) by simp
    show "index + 1 \<le> i" using lt by simp
    show "\<And>k. index + 1 \<le> k \<Longrightarrow> k < i \<Longrightarrow> TEXTURE_INFO.tag (m_textureIDs st ! k) \<noteq> tg"
      using Suc.prems(5) by simp
  qed (use Suc.prems in simp_all)
  then show ?case using lt ne Suc.prems(2,3)
    by (subst FindTextureSlot_loop.simps) simp
qed

lemma FindTextureID_loop_first:
  assumes "index \<le> i" and "int i < m_loadedTextures st" and "i < length (m_textureIDs st)"
    and "TEXTURE_INFO.tag (m_textureIDs st ! i) = tg"
    and "\<And>k. index \<le> k \<Longrightarrow> k < i \<Longrightarrow> TEXTURE_INFO.tag (m_textureIDs st ! k) \<noteq> tg"
  shows "FindTextureID_loop st tg textureID index False = Inr (sint (ID (m_textureIDs st ! i)))"
  using assms
proof (induction "i - index" arbitrary: index textureID)
  case 0
  then have eq: "index = i" by simp
  have "FindTextureID_loop st tg (sint (ID (m_textureIDs st ! i))) i True
          = Inr (sint (ID (m_textureIDs st ! i)))"
    by (subst FindTextureID_loop.simps) simp
  then show ?case using 0 eq
    by (subst FindTextureID_loop.simps) simp
next
  case (Suc d)
  then have lt: "index < i" by simp
  have ne: "TEXTURE_INFO.tag (m_textureIDs st ! index) \<noteq> tg"
    using Suc.prems(5) [of index] lt by simp
  have "FindTextureID_loop st tg textureID (index + 1) False
          = Inr (sint (ID (m_textureIDs st ! i)))"
  proof (rule Suc.hyps(1))
    show "d = i - (index + 1)" using Suc.hyps(2) by simp
    show "index + 1 \<le> i" using lt by simp
    show "\<And>k. index + 1 \<le> k \<Longrightarrow> k < i \<Longrightarrow> TEXTURE_INFO.tag (m_textureIDs st ! k) \<noteq> tg"
      using Suc.prems(5) by simp
  qed (use Suc.prems in simp_all)
  then show ?case using lt ne Suc.prems(2,3)
    by (subst FindTextureID_loop.simps) simp
qed

text \<open>
  C4. In a registry within its array where two slots in use bear the same tag, slot
  \<open>i\<close> being the first that bears it and slot \<open>j\<close> a later one, \<open>FindTextureID\<close>
  returns the handle stored in slot \<open>i\<close> (its 32 bits read as an \<open>int\<close>) and
  \<open>FindTextureSlot\<close> returns \<open>i\<close>, never \<open>j\<close>. Slots are filled in index order, so
  the first slot is the first inserted.
\<close>

theorem FindTexture_first_match:
  assumes "m_loadedTextures st \<le> int (length (m_textureIDs st))"
    and "i < j" and "int j < m_loadedTextures st"
    and "TEXTURE_INFO.tag (m_textureIDs st ! i) = tg"
    and "TEXTURE_INFO.tag (m_textureIDs st ! j) = tg"
    and "\<forall>k<i. TEXTURE_INFO.tag (m_textureIDs st ! k) \<noteq> tg"
  shows "FindTextureID tg st = Inr (sint (ID (m_textureIDs st ! i)))
         \<and> FindTextureSlot tg st = Inr (int i)
         \<and> FindTextureSlot tg st \<noteq> Inr (int j)"
proof -
  have i: "int i < m_loadedTextures st" "i < length (m_textureIDs st)"
    using assms(1,2,3) by linarith+
  have "FindTextureID tg st = Inr (sint (ID (m_textureIDs st ! i)))"
    unfolding FindTextureID_def
    using i assms(4,6) by (intro FindTextureID_loop_first) simp_all
  moreover have "FindTextureSlot tg st = Inr (int i)"
    unfolding FindTextureSlot_def
    using i assms(4,6) by (intro FindTextureSlot_loop_first) simp_all
  ultimately show ?thesis using assms(2) by simp
qed

theorem FindTexture_first_match_witness:
  "FindTextureID ''dash'' twice_dash_scene = Inr 2
   \<and> FindTextureSlot ''dash'' twice_dash_scene = Inr 1"
  using FindTexture_first_match [of twice_dash_scene 1 2 "''dash''"]
  by (simp add: twice_dash_scene_def blank_scene_def)

section \<open>Loading, then looking up\<close>

lemma CreateGLTexture_registers:
  assumes "stbi_load filename = Some img"
    and "colorChannels img = 3 \<or> colorChannels img = 4"
    and "0 \<le> m_loadedTextures st" and "m_loadedTextures st < int (length (m_textureIDs st))"
  shows "\<exists>st'. CreateGLTexture stbi_load filename tg st = Inr (True, st')
           \<and> m_textureIDs st' = (m_textureIDs st)
               [nat (m_loadedTextures st) := \<lparr>ID = unused_name (gl_names (gl st)), tag = tg\<rparr>]
           \<and> m_loadedTextures st' = m_loadedTextures st + 1
           \<and> m_objectMaterials st' = m_objectMaterials st
           \<and> m_pShaderManager st' = m_pShaderManager st"
  using assms
  by (cases "colorChannels img = 3")
     (simp_all add: CreateGLTexture_def CreateGLTexture_register_def glGenTextures_def Let_def)

text \<open>
  C5, as amended. When the image decodes to 3 or 4 channels, a slot of the array is
  free and no slot in use bears the tag yet, \<open>CreateGLTexture\<close> returns true, and
  afterwards \<open>FindTextureID\<close> returns the handle of the entry just written (as an
  \<open>int\<close>) and \<open>FindTextureSlot\<close> its index.
\<close>

theorem load_then_find_unused_tag:
  assumes "stbi_load filename = Some img"
    and "colorChannels img = 3 \<or> colorChannels img = 4"
    and "0 \<le> m_loadedTextures st" and "m_loadedTextures st < int (length (m_textureIDs st))"
    and "\<forall>k. int k < m_loadedTextures st \<longrightarrow> TEXTURE_INFO.tag (m_textureIDs st ! k) \<noteq> tg"
  shows "\<exists>st'. CreateGLTexture stbi_load filename tg st = Inr (True, st')
           \<and> m_loadedTextures st' = m_loadedTextures st + 1
           \<and> TEXTURE_INFO.tag (m_textureIDs st' ! nat (m_loadedTextures st)) = tg
           \<and> FindTextureID tg st'
               = Inr (sint (ID (m_textureIDs st' ! nat (m_loadedTextures st))))
           \<and> FindTextureSlot tg st' = Inr (m_loadedTextures st)"
proof -
  define n where "n = nat (m_loadedTextures st)"
  from CreateGLTexture_registers [of stbi_load filename img st tg] assms(1-4)
  obtain st' where r: "CreateGLTexture stbi_load filename tg st = Inr (True, st')"
    and arr: "m_textureIDs st' = (m_textureIDs st)
               [n := \<lparr>ID = unused_name (gl_names (gl st)), tag = tg\<rparr>]"
    and loaded: "m_loadedTextures st' = m_loadedTextures st + 1"
    unfolding n_def by blast
  have n: "int n = m_loadedTextures st" "n < length (m_textureIDs st)"
    using assms(3,4) by (simp_all add: n_def)
  have new: "TEXTURE_INFO.tag (m_textureIDs st' ! n) = tg"
    using n by (simp add: arr)
  have old: "TEXTURE_INFO.tag (m_textureIDs st' ! k) \<noteq> tg" if "k < n" for k
    using that assms(5) n by (simp add: arr)
  have "FindTextureID tg st' = Inr (sint (ID (m_textureIDs st' ! n)))"
    unfolding FindTextureID_def
    using n new old loaded by (intro FindTextureID_loop_first) (simp_all add: arr)
  moreover have "FindTextureSlot tg st' = Inr (int n)"
    unfolding FindTextureSlot_def
    using n new old loaded by (intro FindTextureSlot_loop_first) (simp_all add: arr)
  ultimately show ?thesis using r loaded new n by (simp add: n_def)
qed

theorem load_then_find_unused_tag_witness:
  "\<exists>st'. CreateGLTexture example_files ''textures/tesla_screen.jpg'' ''screen'' twice_dash_scene
            = Inr (True, st')
     \<and> m_loadedTextures st' = 4
     \<and> TEXTURE_INFO.tag (m_textureIDs st' ! 3) = ''screen''
     \<and> FindTextureID ''screen'' st' = Inr (sint (ID (m_textureIDs st' ! 3)))
     \<and> FindTextureSlot ''screen'' st' = Inr 3"
proof -
  have unused: "\<forall>k. int k < m_loadedTextures twice_dash_scene \<longrightarrow>
      TEXTURE_INFO.tag (m_textureIDs twice_dash_scene ! k) \<noteq> ''screen''"
  proof (intro allI impI)
    fix k assume "int k < m_loadedTextures twice_dash_scene"
    then have "k < 3" by (simp add: twice_dash_scene_def blank_scene_def)
    then consider "k = 0" | "k = 1" | "k = 2" by linarith
    then show "TEXTURE_INFO.tag (m_textureIDs twice_dash_scene ! k) \<noteq> ''screen''"
      by cases (simp_all add: twice_dash_scene_def blank_scene_def)
  qed
  have decoded: "example_files ''textures/tesla_screen.jpg''
          = Some \<lparr>width = 1024, height = 640, colorChannels = 4\<rparr>"
    by (simp add: example_files_def)
  from load_then_find_unused_tag [of example_files "''textures/tesla_screen.jpg''"
          "\<lparr>width = 1024, height = 640, colorChannels = 4\<rparr>" twice_dash_scene "''screen''"]
    decoded unused
  show ?thesis by (simp add: twice_dash_scene_def blank_scene_def)
qed

text \<open>
  C5, as stated, fails when the tag is already borne: loading a fourth texture under
  \<open>dash\<close> succeeds and writes slot 3 with handle 4, and both lookups still answer
  with the first \<open>dash\<close> entry, slot 1 with handle 2.
\<close>

theorem load_then_find_duplicate_tag_counterexample:
  "isl dash_loaded_again = False
   \<and> fst (projr dash_loaded_again) = True
   \<and> m_loadedTextures twice_dash_scene = 3
   \<and> m_textureIDs (snd (projr dash_loaded_again)) ! 3 = \<lparr>ID = 4, tag = ''dash''\<rparr>
   \<and> FindTextureSlot ''dash'' (snd (projr dash_loaded_again)) = Inr 1
   \<and> FindTextureID ''dash'' (snd (projr dash_loaded_again)) = Inr 2"
  by code_simp

section \<open>Releasing the textures\<close>

lemma word32_of_nat_inj_on: "inj_on (of_nat :: nat \<Rightarrow> 32 word) {..< 2 ^ 32}"
proof (rule inj_onI)
  fix x y :: nat
  assume "x \<in> {..< 2 ^ 32}" "y \<in> {..< 2 ^ 32}" and eq: "(of_nat x :: 32 word) = of_nat y"
  then have "x < 2 ^ 32" "y < 2 ^ 32" by simp_all
  from eq have "unat (of_nat x :: 32 word) = unat (of_nat y :: 32 word)" by simp
  then show "x = y" using \<open>x < 2 ^ 32\<close> \<open>y < 2 ^ 32\<close>
    by (simp add: unat_of_nat)
qed

lemma unused_name_fresh:
  assumes "length used < 2 ^ 32 - 1"
  shows "unused_name used \<notin> set used"
proof -
  define cs :: "32 word list" where "cs = map of_nat [1 ..< length used + 2]"
  have "distinct cs"
    unfolding cs_def
  proof (subst distinct_map, intro conjI)
    show "distinct [1 ..< length used + 2]" by simp
    show "inj_on (of_nat :: nat \<Rightarrow> 32 word) (set [1 ..< length used + 2])"
      using assms by (intro inj_on_subset [OF word32_of_nat_inj_on]) auto
  qed
  then have "card (set cs) = length cs" by (rule distinct_card)
  also have "length cs = length used + 1" by (simp add: cs_def del: upt_Suc)
  finally have card_cs: "card (set cs) = length used + 1" .
  have "\<exists>c \<in> set cs. c \<notin> set used"
  proof (rule ccontr)
    assume "\<not> (\<exists>c \<in> set cs. c \<notin> set used)"
    then have "set cs \<subseteq> set used" by auto
    then have "card (set cs) \<le> card (set used)" by (intro card_mono) simp_all
    also have "\<dots> \<le> length used" by (rule card_length)
    finally show False using card_cs by simp
  qed
  then obtain x where x: "find (\<lambda>n. n \<notin> set used) cs = Some x"
    by (cases "find (\<lambda>n. n \<notin> set used) cs") (auto simp: find_None_iff)
  then have "x \<notin> set used" by (auto simp: find_Some_iff)
  with x show ?thesis by (simp add: unused_name_def cs_def)
qed

lemma DestroyGLTextures_loop_effect:
  assumes "m_loadedTextures st \<le> int (length (m_textureIDs st))"
    and "length (gl_names (gl st)) + (nat (m_loadedTextures st) - i) < 2 ^ 32 - 1"
  shows "\<exists>st'. DestroyGLTextures_loop i st = Inr st'
           \<and> m_loadedTextures st' = m_loadedTextures st
           \<and> map TEXTURE_INFO.tag (m_textureIDs st') = map TEXTURE_INFO.tag (m_textureIDs st)
           \<and> set (gl_names (gl st)) \<subseteq> set (gl_names (gl st'))
           \<and> (\<forall>k. i \<le> k \<and> int k < m_loadedTextures st \<longrightarrow>
                 ID (m_textureIDs st' ! k) \<in> set (gl_names (gl st')) - set (gl_names (gl st)))
           \<and> (\<forall>k. k < i \<or> m_loadedTextures st \<le> int k \<longrightarrow>
                 m_textureIDs st' ! k = m_textureIDs st ! k)
           \<and> m_objectMaterials st' = m_objectMaterials st
           \<and> m_pShaderManager st' = m_pShaderManager st
           \<and> (\<exists>ns. gl_calls (gl st') = map GenTextures ns @ gl_calls (gl st))"
  using assms
proof (induction "nat (m_loadedTextures st) - i" arbitrary: i st)
  case 0
  then have "\<not> int i < m_loadedTextures st" by linarith
  then have "DestroyGLTextures_loop i st = Inr st"
    by (subst DestroyGLTextures_loop.simps) simp
  moreover have "gl_calls (gl st) = map GenTextures [] @ gl_calls (gl st)" by simp
  ultimately show ?case using \<open>\<not> int i < m_loadedTextures st\<close> by fastforce
next
  case (Suc d)
  then have lt: "int i < m_loadedTextures st" by linarith
  then have inb: "i < length (m_textureIDs st)" using Suc.prems(1) by linarith
  define n where "n = unused_name (gl_names (gl st))"
  define st1 where "st1 = st
     \<lparr>m_textureIDs := (m_textureIDs st)[i := (m_textureIDs st ! i)\<lparr>ID := n\<rparr>],
      gl := (gl st)\<lparr>gl_names := n # gl_names (gl st),
                    gl_calls := GenTextures n # gl_calls (gl st)\<rparr>\<rparr>"
  have fresh: "n \<notin> set (gl_names (gl st))"
    unfolding n_def using Suc.prems(2) by (intro unused_name_fresh) linarith
  have step: "DestroyGLTextures_loop i st = DestroyGLTextures_loop (i + 1) st1"
    using lt inb
    by (subst DestroyGLTextures_loop.simps) (simp add: glGenTextures_def st1_def n_def Let_def)
  have st1_simps: "m_loadedTextures st1 = m_loadedTextures st"
    "length (m_textureIDs st1) = length (m_textureIDs st)"
    "gl_names (gl st1) = n # gl_names (gl st)"
    "gl_calls (gl st1) = GenTextures n # gl_calls (gl st)"
    "m_objectMaterials st1 = m_objectMaterials st"
    "m_pShaderManager st1 = m_pShaderManager st"
    "m_textureIDs st1 = (m_textureIDs st)[i := (m_textureIDs st ! i)\<lparr>ID := n\<rparr>]"
    by (simp_all add: st1_def)
  have tags1: "map TEXTURE_INFO.tag (m_textureIDs st1) = map TEXTURE_INFO.tag (m_textureIDs st)"
    using inb by (simp add: st1_simps map_update list_update_same_conv)
  have "\<exists>st'. DestroyGLTextures_loop (i + 1) st1 = Inr st'
           \<and> m_loadedTextures st' = m_loadedTextures st1
           \<and> map TEXTURE_INFO.tag (m_textureIDs st') = map TEXTURE_INFO.tag (m_textureIDs st1)
           \<and> set (gl_names (gl st1)) \<subseteq> set (gl_names (gl st'))
           \<and> (\<forall>k. i + 1 \<le> k \<and> int k < m_loadedTextures st1 \<longrightarrow>
                 ID (m_textureIDs st' ! k) \<in> set (gl_names (gl st')) - set (gl_names (gl st1)))
           \<and> (\<forall>k. k < i + 1 \<or> m_loadedTextures st1 \<le> int k \<longrightarrow>
                 m_textureIDs st' ! k = m_textureIDs st1 ! k)
           \<and> m_objectMaterials st' = m_objectMaterials st1
           \<and> m_pShaderManager st' = m_pShaderManager st1
           \<and> (\<exists>ns. gl_calls (gl st') = map GenTextures ns @ gl_calls (gl st1))"
  proof (rule Suc.hyps(1))
    show "d = nat (m_loadedTextures st1) - (i + 1)" using Suc.hyps(2) by (simp add: st1_simps)
    show "m_loadedTextures st1 \<le> int (length (m_textureIDs st1))"
      using Suc.prems(1) by (simp add: st1_simps)
    show "length (gl_names (gl st1)) + (nat (m_loadedTextures st1) - (i + 1)) < 2 ^ 32 - 1"
      using Suc.prems(2) lt by (simp add: st1_simps)
  qed
  then obtain st' ns where r: "DestroyGLTextures_loop (i + 1) st1 = Inr st'"
    and loaded: "m_loadedTextures st' = m_loadedTextures st1"
    and tags: "map TEXTURE_INFO.tag (m_textureIDs st') = map TEXTURE_INFO.tag (m_textureIDs st1)"
    and names: "set (gl_names (gl st1)) \<subseteq> set (gl_names (gl st'))"
    and later: "\<And>k. i + 1 \<le> k \<Longrightarrow> int k < m_loadedTextures st1 \<Longrightarrow>
                 ID (m_textureIDs st' ! k) \<in> set (gl_names (gl st')) - set (gl_names (gl st1))"
    and other: "\<And>k. k < i + 1 \<or> m_loadedTextures st1 \<le> int k \<Longrightarrow>
                 m_textureIDs st' ! k = m_textureIDs st1 ! k"
    and mats: "m_objectMaterials st' = m_objectMaterials st1"
    and shader: "m_pShaderManager st' = m_pShaderManager st1"
    and calls: "gl_calls (gl st') = map GenTextures ns @ gl_calls (gl st1)"
    by blast
  have here: "ID (m_textureIDs st' ! i) = n"
    using other [of i] inb by (simp add: st1_simps)
  have slots: "ID (m_textureIDs st' ! k) \<in> set (gl_names (gl st')) - set (gl_names (gl st))"
    if "i \<le> k" "int k < m_loadedTextures st" for k
  proof (cases "k = i")
    case True
    then show ?thesis using here fresh names by (auto simp: st1_simps)
  next
    case False
    then have "i + 1 \<le> k" using that(1) by simp
    from later [OF this] that(2) show ?thesis by (auto simp: st1_simps)
  qed
  have untouched: "m_textureIDs st' ! k = m_textureIDs st ! k"
    if "k < i \<or> m_loadedTextures st \<le> int k" for k
  proof -
    from that lt have "k \<noteq> i" by auto
    moreover have "m_textureIDs st' ! k = m_textureIDs st1 ! k"
      using that by (intro other) (auto simp: st1_simps)
    ultimately show ?thesis by (simp add: st1_simps)
  qed
  have "gl_calls (gl st') = map GenTextures (ns @ [n]) @ gl_calls (gl st)"
    using calls by (simp add: st1_simps)
  then have "\<exists>ns. gl_calls (gl st') = map GenTextures ns @ gl_calls (gl st)" by blast
  moreover have "set (gl_names (gl st)) \<subseteq> set (gl_names (gl st'))"
    using names by (auto simp: st1_simps)
  ultimately show ?case
    using step r loaded tags tags1 slots untouched mats shader
    by (simp add: st1_simps)
qed

text \<open>
  C7. In a registry within its array (and a driver with names left),
  \<open>DestroyGLTextures\<close> returns; the only OpenGL calls it issues generate names, so
  every texture name in use before is still in use after and no texture is deleted;
  each slot in use holds a name generated by the call, one that was not in use before;
  the count of loaded textures and the tag of every entry are unchanged.
\<close>

theorem DestroyGLTextures_regenerates_names:
  assumes "m_loadedTextures st \<le> int (length (m_textureIDs st))"
    and "length (gl_names (gl st)) + nat (m_loadedTextures st) < 2 ^ 32 - 1"
  shows "\<exists>st'. DestroyGLTextures st = Inr st'
           \<and> m_loadedTextures st' = m_loadedTextures st
           \<and> map TEXTURE_INFO.tag (m_textureIDs st') = map TEXTURE_INFO.tag (m_textureIDs st)
           \<and> set (gl_names (gl st)) \<subseteq> set (gl_names (gl st'))
           \<and> (\<exists>ns. gl_calls (gl st') = map GenTextures ns @ gl_calls (gl st))
           \<and> (\<forall>k. int k < m_loadedTextures st \<longrightarrow>
                 ID (m_textureIDs st' ! k) \<in> set (gl_names (gl st')) - set (gl_names (gl st)))"
proof -
  from DestroyGLTextures_loop_effect [of st 0] assms
  obtain st' where r: "DestroyGLTextures_loop 0 st = Inr st'"
    and l: "m_loadedTextures st' = m_loadedTextures st"
    and t: "map TEXTURE_INFO.tag (m_textureIDs st') = map TEXTURE_INFO.tag (m_textureIDs st)"
    and n: "set (gl_names (gl st)) \<subseteq> set (gl_names (gl st'))"
    and f: "\<forall>k. 0 \<le> k \<and> int k < m_loadedTextures st \<longrightarrow>
              ID (m_textureIDs st' ! k) \<in> set (gl_names (gl st')) - set (gl_names (gl st))"
    and c: "\<exists>ns. gl_calls (gl st') = map GenTextures ns @ gl_calls (gl st)"
    by auto
  from f have "\<forall>k. int k < m_loadedTextures st \<longrightarrow>
      ID (m_textureIDs st' ! k) \<in> set (gl_names (gl st')) - set (gl_names (gl st))"
    by simp
  with r l t n c show ?thesis
    unfolding DestroyGLTextures_def by (intro exI [of _ st']) simp
qed

theorem DestroyGLTextures_regenerates_witness:
  "\<exists>st'. DestroyGLTextures twice_dash_scene = Inr st'
     \<and> m_loadedTextures st' = 3
     \<and> map TEXTURE_INFO.tag (take 3 (m_textureIDs st')) = [''base'', ''dash'', ''dash'']
     \<and> {1, 2, 3} \<subseteq> set (gl_names (gl st'))
     \<and> ID (m_textureIDs st' ! 0) \<notin> {1, 2, 3}
     \<and> ID (m_textureIDs st' ! 1) \<notin> {1, 2, 3}
     \<and> ID (m_textureIDs st' ! 2) \<notin> {1, 2, 3}"
proof -
  have "m_loadedTextures twice_dash_scene \<le> int (length (m_textureIDs twice_dash_scene))"
    and "length (gl_names (gl twice_dash_scene)) + nat (m_loadedTextures twice_dash_scene)
           < 2 ^ 32 - 1"
    by (simp_all add: twice_dash_scene_def blank_scene_def)
  from DestroyGLTextures_regenerates_names [OF this]
  obtain st' where r: "DestroyGLTextures twice_dash_scene = Inr st'"
    and l: "m_loadedTextures st' = m_loadedTextures twice_dash_scene"
    and t: "map TEXTURE_INFO.tag (m_textureIDs st')
              = map TEXTURE_INFO.tag (m_textureIDs twice_dash_scene)"
    and n: "set (gl_names (gl twice_dash_scene)) \<subseteq> set (gl_names (gl st'))"
    and f: "\<And>k. int k < m_loadedTextures twice_dash_scene \<Longrightarrow>
              ID (m_textureIDs st' ! k)
                \<in> set (gl_names (gl st')) - set (gl_names (gl twice_dash_scene))"
    by blast
  have "map TEXTURE_INFO.tag (take 3 (m_textureIDs st'))
          = take 3 (map TEXTURE_INFO.tag (m_textureIDs st'))"
    by (simp add: take_map)
  then have "map TEXTURE_INFO.tag (take 3 (m_textureIDs st')) = [''base'', ''dash'', ''dash'']"
    using t by (simp add: twice_dash_scene_def blank_scene_def)
  moreover have "{1, 2, 3} \<subseteq> set (gl_names (gl st'))"
    using n by (simp add: twice_dash_scene_def blank_scene_def)
  moreover have "ID (m_textureIDs st' ! 0) \<notin> {1, 2, 3}" "ID (m_textureIDs st' ! 1) \<notin> {1, 2, 3}"
    "ID (m_textureIDs st' ! 2) \<notin> {1, 2, 3}"
    using f [of 0] f [of 1] f [of 2] by (auto simp: twice_dash_scene_def blank_scene_def)
  moreover have "m_loadedTextures st' = 3"
    using l by (simp add: twice_dash_scene_def blank_scene_def)
  ultimately show ?thesis using r by (intro exI [of _ st']) simp
qed

section \<open>Steps of the scene script\<close>

lemma extends_ready: "ready st \<Longrightarrow> extends st st' \<Longrightarrow> ready st'"
  by (auto simp: ready_def extends_def)

lemma extends_refl: "ready st \<Longrightarrow> extends st st"
  by (auto simp: ready_def extends_def)

lemma extends_trans: "extends st st1 \<Longrightarrow> extends st1 st2 \<Longrightarrow> extends st st2"
  unfolding extends_def
proof (elim conjE exE)
  fix sh ws sh1 ws1
  assume a: "m_pShaderManager st = Some sh" "m_pShaderManager st1 = Some (ws @ sh)"
    "m_pShaderManager st1 = Some sh1" "m_pShaderManager st2 = Some (ws1 @ sh1)"
    and l: "m_loadedTextures st1 = m_loadedTextures st" "m_loadedTextures st2 = m_loadedTextures st1"
    and t: "m_textureIDs st1 = m_textureIDs st" "m_textureIDs st2 = m_textureIDs st1"
    and m: "m_objectMaterials st1 = m_objectMaterials st"
      "m_objectMaterials st2 = m_objectMaterials st1"
  from a have "m_pShaderManager st2 = Some ((ws1 @ ws) @ sh)" by simp
  with a(1) have "\<exists>sh ws. m_pShaderManager st = Some sh \<and> m_pShaderManager st2 = Some (ws @ sh)"
    by blast
  with l t m show "m_loadedTextures st2 = m_loadedTextures st
     \<and> m_textureIDs st2 = m_textureIDs st
     \<and> m_objectMaterials st2 = m_objectMaterials st
     \<and> (\<exists>sh ws. m_pShaderManager st = Some sh \<and> m_pShaderManager st2 = Some (ws @ sh))"
    by simp
qed

lemma run_append:
  "run (fs @ gs) st = (case run fs st of Inr st1 \<Rightarrow> run gs st1 | Inl e \<Rightarrow> Inl e)"
  by (induction fs arbitrary: st) (simp_all split: sum.splits)

lemma safe_step_run: "list_all safe_step fs \<Longrightarrow> safe_step (run fs)"
proof (induction fs)
  case Nil
  show ?case by (simp add: safe_step_def extends_refl)
next
  case (Cons f fs)
  then have f: "safe_step f" and fs: "safe_step (run fs)" by simp_all
  show ?case
    unfolding safe_step_def
  proof (intro allI impI)
    fix st assume r: "ready st"
    from f r obtain st1 where 1: "f st = Inr st1" "extends st st1"
      by (auto simp: safe_step_def)
    from extends_ready [OF r 1(2)] fs obtain st2 where 2: "run fs st1 = Inr st2" "extends st1 st2"
      by (auto simp: safe_step_def)
    from 1 2 have "run (f # fs) st = Inr st2" by simp
    moreover have "extends st st2" using 1(2) 2(2) by (rule extends_trans)
    ultimately show "\<exists>st'. run (f # fs) st = Inr st' \<and> extends st st'" by blast
  qed
qed

lemma safe_total: "(\<And>st. ready st \<Longrightarrow> extends st (f st)) \<Longrightarrow> safe_step (total f)"
  by (simp add: safe_step_def total_def)

lemma safe_SetTransformations: "safe_step (total (SetTransformations s x y z p))"
proof (rule safe_total)
  fix st assume "ready st"
  then obtain sh where "m_pShaderManager st = Some sh" by (auto simp: ready_def)
  then show "extends st (SetTransformations s x y z p st)"
    by (simp add: extends_def SetTransformations_def Let_def setMat4Value_def)
qed

lemma safe_SetShaderColor: "safe_step (total (SetShaderColor r g b a))"
proof (rule safe_total)
  fix st assume "ready st"
  then obtain sh where sh: "m_pShaderManager st = Some sh" by (auto simp: ready_def)
  have "(g_ColorValueName, UVec4 (r, g, b, a)) # (g_UseTextureName, UInt 0) # sh
          = [(g_ColorValueName, UVec4 (r, g, b, a)), (g_UseTextureName, UInt 0)] @ sh"
    by simp
  then show "extends st (SetShaderColor r g b a st)"
    using sh unfolding extends_def SetShaderColor_def Let_def setVec4Value_def setIntValue_def
    by (simp del: append.simps)
qed

lemma safe_SetTextureUVScale: "safe_step (total (SetTextureUVScale u v))"
proof (rule safe_total)
  fix st assume "ready st"
  then obtain sh where "m_pShaderManager st = Some sh" by (auto simp: ready_def)
  then show "extends st (SetTextureUVScale u v st)"
    by (simp add: extends_def SetTextureUVScale_def setVec2Value_def)
qed

lemma safe_DrawMeshOf: "safe_step (total (DrawMeshOf m))"
proof (rule safe_total)
  fix st assume "ready st"
  then obtain sh where "m_pShaderManager st = Some sh" by (auto simp: ready_def)
  then show "extends st (DrawMeshOf m st)"
    by (simp add: extends_def DrawMeshOf_def)
qed

lemma safe_SetShaderTexture: "safe_step (SetShaderTexture tg)"
  unfolding safe_step_def
proof (intro allI impI)
  fix st assume r: "ready st"
  then obtain sh where sh: "m_pShaderManager st = Some sh" by (auto simp: ready_def)
  from r obtain slot where slot: "FindTextureSlot tg st = Inr slot"
    using FindTextureSlot_returns [of st tg] by (auto simp: ready_def)
  define st' where "st' = st\<lparr>m_pShaderManager :=
      Some ([(g_TextureValueName, USampler2D slot), (g_UseTextureName, UInt 1)] @ sh)\<rparr>"
  have "SetShaderTexture tg st = Inr st'"
    using sh slot
    by (simp add: SetShaderTexture_def Let_def setIntValue_def setSampler2DValue_def st'_def)
  moreover have "extends st st'"
    unfolding extends_def st'_def using sh by (simp del: append.simps)
  ultimately show "\<exists>st'. SetShaderTexture tg st = Inr st' \<and> extends st st'" by blast
qed

lemma SetShaderMaterial_writes:
  assumes "m_pShaderManager st = Some sh" and "m_objectMaterials st \<noteq> []"
  shows "SetShaderMaterial material0 tg st = Inr (st\<lparr>m_pShaderManager := Some
           ([(''material.shininess'', UFloat (shininess (snd (FindMaterial tg material0 st)))),
             (''material.specularColor'', UVec3 (specularColor (snd (FindMaterial tg material0 st)))),
             (''material.diffuseColor'', UVec3 (diffuseColor (snd (FindMaterial tg material0 st))))]
            @ sh)\<rparr>)"
proof -
  have "fst (FindMaterial tg material0 st) = True"
    using assms(2) by (simp add: FindMaterial_def)
  then obtain mat where mat: "FindMaterial tg material0 st = (True, mat)"
    by (cases "FindMaterial tg material0 st") simp
  show ?thesis
    using assms by (simp add: SetShaderMaterial_def mat setFloatValue_def setVec3Value_def)
qed

lemma safe_SetShaderMaterial: "safe_step (SetShaderMaterial material0 tg)"
  unfolding safe_step_def
proof (intro allI impI)
  fix st assume r: "ready st"
  then obtain sh where sh: "m_pShaderManager st = Some sh" by (auto simp: ready_def)
  show "\<exists>st'. SetShaderMaterial material0 tg st = Inr st' \<and> extends st st'"
  proof (cases "m_objectMaterials st = []")
    case True
    then have "SetShaderMaterial material0 tg st = Inr st" by (simp add: SetShaderMaterial_def)
    then show ?thesis using extends_refl [OF r] by blast
  next
    case False
    from SetShaderMaterial_writes [OF sh False, of material0 tg]
    show ?thesis using sh unfolding extends_def by (simp del: append.simps)
  qed
qed

lemmas safe_steps = safe_SetTransformations safe_SetShaderColor safe_SetTextureUVScale
  safe_DrawMeshOf safe_SetShaderTexture safe_SetShaderMaterial

section \<open>The state after PrepareScene\<close>

lemma BindGLTextures_loop_frame:
  assumes "BindGLTextures_loop i st = Inr st'"
  shows "(i \<le> length (m_textureIDs st) \<longrightarrow> m_loadedTextures st \<le> int (length (m_textureIDs st)))
         \<and> m_loadedTextures st' = m_loadedTextures st
         \<and> m_textureIDs st' = m_textureIDs st
         \<and> m_objectMaterials st' = m_objectMaterials st
         \<and> m_pShaderManager st' = m_pShaderManager st"
  using assms
proof (induction i st rule: BindGLTextures_loop.induct)
  case (1 i st)
  show ?case
  proof (cases "int i < m_loadedTextures st")
    case False
    with "1.prems" have "st' = st" by (subst (asm) BindGLTextures_loop.simps) simp
    with False show ?thesis by simp
  next
    case lt: True
    show ?thesis
    proof (cases "i < length (m_textureIDs st)")
      case False
      with lt "1.prems" show ?thesis by (subst (asm) BindGLTextures_loop.simps) simp
    next
      case inb: True
      define st1 where "st1 = st\<lparr>gl := gl_issue (BindTexture GL_TEXTURE_2D (ID (m_textureIDs st ! i)))
                                (gl_issue (ActiveTexture i) (gl st))\<rparr>"
      have "BindGLTextures_loop (i + 1) st1 = Inr st'"
        using "1.prems" lt inb unfolding st1_def
        by (subst (asm) BindGLTextures_loop.simps) simp
      from "1.IH" [OF lt inb this [unfolded st1_def]] inb
      show ?thesis by simp
    qed
  qed
qed

lemma CreateGLTexture_register_frame:
  assumes "CreateGLTexture_register textureID tg g st = Inr (b, st')"
  shows "m_objectMaterials st' = m_objectMaterials st \<and> m_pShaderManager st' = m_pShaderManager st"
proof (cases "0 \<le> m_loadedTextures st \<and> m_loadedTextures st < int (length (m_textureIDs st))")
  case True
  with assms show ?thesis by (auto simp: CreateGLTexture_register_def Let_def)
next
  case False
  with assms show ?thesis by (simp add: CreateGLTexture_register_def Let_def)
qed

lemma CreateGLTexture_frame:
  assumes "CreateGLTexture stbi_load filename tg st = Inr (b, st')"
  shows "m_objectMaterials st' = m_objectMaterials st \<and> m_pShaderManager st' = m_pShaderManager st"
proof (cases "stbi_load filename")
  case None
  with assms show ?thesis by (simp add: CreateGLTexture_def)
next
  case (Some img)
  consider "colorChannels img = 3" | "colorChannels img \<noteq> 3" "colorChannels img = 4"
    | "colorChannels img \<noteq> 3" "colorChannels img \<noteq> 4" by blast
  then show ?thesis
  proof cases
    case 1
    with assms Some obtain textureID g
      where "CreateGLTexture_register textureID tg g st = Inr (b, st')"
      by (simp add: CreateGLTexture_def glGenTextures_def Let_def)
    then show ?thesis by (rule CreateGLTexture_register_frame)
  next
    case 2
    with assms Some obtain textureID g
      where "CreateGLTexture_register textureID tg g st = Inr (b, st')"
      by (simp add: CreateGLTexture_def glGenTextures_def Let_def)
    then show ?thesis by (rule CreateGLTexture_register_frame)
  next
    case 3
    with assms Some show ?thesis
      by (auto simp: CreateGLTexture_def glGenTextures_def Let_def)
  qed
qed

lemma ignoring_bReturn_frame:
  assumes "ignoring_bReturn (CreateGLTexture stbi_load filename tg) st = Inr st'"
  shows "m_objectMaterials st' = m_objectMaterials st \<and> m_pShaderManager st' = m_pShaderManager st"
proof -
  from assms obtain b where "CreateGLTexture stbi_load filename tg st = Inr (b, st')"
    by (auto simp: ignoring_bReturn_def split: sum.splits)
  then show ?thesis by (rule CreateGLTexture_frame)
qed

lemma run_preserves:
  assumes "\<And>f s s'. f \<in> set fs \<Longrightarrow> f s = Inr s' \<Longrightarrow> g s' = g s"
    and "run fs st = Inr st'"
  shows "g st' = g st"
  using assms
proof (induction fs arbitrary: st)
  case Nil
  then show ?case by simp
next
  case (Cons f fs)
  from Cons.prems(2) obtain st1 where 1: "f st = Inr st1" and 2: "run fs st1 = Inr st'"
    by (auto split: sum.splits)
  have "g st' = g st1" using Cons.prems(1) 2 by (intro Cons.IH) auto
  moreover have "g st1 = g st" using Cons.prems(1) [of f st st1] 1 by simp
  ultimately show ?case by simp
qed

lemma LoadSceneTextures_frame:
  assumes "LoadSceneTextures stbi_load st = Inr st'"
  shows "m_objectMaterials st' = m_objectMaterials st
         \<and> m_pShaderManager st' = m_pShaderManager st
         \<and> m_loadedTextures st' \<le> int (length (m_textureIDs st'))"
proof -
  define loads where "loads =
     [ignoring_bReturn (CreateGLTexture stbi_load ''textures/leather1.jpg'' ''dash''),
      ignoring_bReturn (CreateGLTexture stbi_load ''textures/tesla_screen.jpg'' ''screen''),
      ignoring_bReturn (CreateGLTexture stbi_load ''textures/leatherwhite.jpg'' ''base''),
      ignoring_bReturn (CreateGLTexture stbi_load ''textures/metalgrid.jpg'' ''ground''),
      ignoring_bReturn (CreateGLTexture stbi_load ''textures/grayleather.jpg'' ''dashText''),
      ignoring_bReturn (CreateGLTexture stbi_load ''textures/black_plastic.jpg'' ''plastic''),
      ignoring_bReturn (CreateGLTexture stbi_load ''textures/steering_wheel.jpg'' ''wheel'')]"
  have "LoadSceneTextures stbi_load = run (loads @ [BindGLTextures])"
    by (simp add: LoadSceneTextures_def loads_def)
  with assms have "(case run loads st of Inr st1 \<Rightarrow> run [BindGLTextures] st1 | Inl e \<Rightarrow> Inl e)
      = Inr st'"
    by (simp only: run_append)
  then obtain st1 where 1: "run loads st = Inr st1" and "run [BindGLTextures] st1 = Inr st'"
    by (cases "run loads st") simp_all
  then have 2: "BindGLTextures st1 = Inr st'"
    by (cases "BindGLTextures st1") simp_all
  have frame: "m_objectMaterials s' = m_objectMaterials s \<and> m_pShaderManager s' = m_pShaderManager s"
    if "f \<in> set loads" "f s = Inr s'" for f s s'
  proof -
    from that(1) obtain filename tg
      where "f = ignoring_bReturn (CreateGLTexture stbi_load filename tg)"
      unfolding loads_def by auto
    with that(2) show ?thesis by (auto dest: ignoring_bReturn_frame)
  qed
  have "m_objectMaterials st1 = m_objectMaterials st"
  proof (rule run_preserves [where fs = loads and g = m_objectMaterials, OF _ 1])
    fix f s s' assume "f \<in> set loads" "f s = Inr s'"
    then show "m_objectMaterials s' = m_objectMaterials s" using frame by blast
  qed
  moreover have "m_pShaderManager st1 = m_pShaderManager st"
  proof (rule run_preserves [where fs = loads and g = m_pShaderManager, OF _ 1])
    fix f s s' assume "f \<in> set loads" "f s = Inr s'"
    then show "m_pShaderManager s' = m_pShaderManager s" using frame by blast
  qed
  moreover note BindGLTextures_loop_frame [OF 2 [unfolded BindGLTextures_def]]
  ultimately show ?thesis by simp
qed

lemma SetupSceneLights_frame:
  assumes "SetupSceneLights st = Inr st'"
  shows "m_objectMaterials st' = m_objectMaterials st
         \<and> m_loadedTextures st' = m_loadedTextures st
         \<and> m_textureIDs st' = m_textureIDs st
         \<and> m_pShaderManager st' \<noteq> None"
  using assms by (auto simp: SetupSceneLights_def split: option.splits)

lemma DefineObjectMaterials_tags:
  "map OBJECT_MATERIAL.tag (m_objectMaterials (DefineObjectMaterials st))
     = map OBJECT_MATERIAL.tag (m_objectMaterials st)
       @ [''matteblack'', ''polishwhite'', ''glassscreen'', ''dashmat'', ''plastic'']"
  by (simp add: DefineObjectMaterials_def)

lemma run_Cons_Inr:
  assumes "run (f # fs) st = Inr st'"
  obtains st1 where "f st = Inr st1" and "run fs st1 = Inr st'"
  using assms by (cases "f st") simp_all

lemma PrepareScene_result:
  assumes "PrepareScene stbi_load st0 = Inr st"
  shows "m_objectMaterials st = m_objectMaterials (DefineObjectMaterials st0)
         \<and> ready st"
proof -
  from assms [unfolded PrepareScene_def]
  obtain st1 where 1: "total DefineObjectMaterials st0 = Inr st1"
    and r1: "run [LoadSceneTextures stbi_load, SetupSceneLights, total (LoadMeshOf BoxMesh),
                  total (LoadMeshOf PlaneMesh), total (LoadMeshOf CylinderMesh),
                  total (LoadMeshOf TorusMesh)] st1 = Inr st"
    by (rule run_Cons_Inr)
  from r1 obtain st2 where 2: "LoadSceneTextures stbi_load st1 = Inr st2"
    and r2: "run [SetupSceneLights, total (LoadMeshOf BoxMesh), total (LoadMeshOf PlaneMesh),
                  total (LoadMeshOf CylinderMesh), total (LoadMeshOf TorusMesh)] st2 = Inr st"
    by (rule run_Cons_Inr)
  from r2 obtain st3 where 3: "SetupSceneLights st2 = Inr st3"
    and r3: "run [total (LoadMeshOf BoxMesh), total (LoadMeshOf PlaneMesh),
                  total (LoadMeshOf CylinderMesh), total (LoadMeshOf TorusMesh)] st3 = Inr st"
    by (rule run_Cons_Inr)
  from r3 have 4: "st = LoadMeshOf TorusMesh (LoadMeshOf CylinderMesh (LoadMeshOf PlaneMesh
                  (LoadMeshOf BoxMesh st3)))"
    by (simp add: total_def)
  from 1 have st1: "st1 = DefineObjectMaterials st0" by (simp add: total_def)
  from LoadSceneTextures_frame [OF 2] SetupSceneLights_frame [OF 3] 4 st1
  show ?thesis by (simp add: ready_def LoadMeshOf_def)
qed

section \<open>The material metal\<close>

lemma RenderScene_metal_writes:
  assumes r: "ready st" and ne: "m_objectMaterials st \<noteq> []"
    and un: "\<forall>e \<in> set (m_objectMaterials st). OBJECT_MATERIAL.tag e \<noteq> ''metal''"
  shows "\<exists>st' sh'. RenderScene material0 st = Inr st' \<and> m_pShaderManager st' = Some sh'
           \<and> {(''material.diffuseColor'', UVec3 (diffuseColor (material0 2))),
               (''material.specularColor'', UVec3 (specularColor (material0 2))),
               (''material.shininess'', UFloat (shininess (material0 2)))} \<subseteq> set sh'"
proof -
  define pre where "pre =
     [total (SetTransformations (20.0, 1.0, 10.0) 0.0 0.0 0.0 (0.0, 0.0, 0.0)),
      SetShaderMaterial (material0 0) ''dashmat'',
      SetShaderTexture ''ground'',
      total (DrawMeshOf PlaneMesh),
      total (SetTransformations (2.8, 0.12, 0.6) 20.0 0.0 0.0 (0.0, 0.8, - 1.5)),
      SetShaderMaterial (material0 1) ''dashmat'',
      SetShaderTexture ''dash'',
      total (SetTextureUVScale 3.0 1.0),
      total (DrawMeshOf CylinderMesh),
      total (SetTransformations (2.8, 0.02, 0.2) 5.0 0.0 0.0 (0.0, 0.95, - 1.4))]"
  define post where "post =
     [total (SetShaderColor 0.15 0.15 0.15 1.0),
      total (DrawMeshOf BoxMesh),
      total (SetTransformations (0.49, 0.65, 0.04) 5.0 0.0 0.0 (0.0, 0.9, - 0.85)),
      SetShaderMaterial (material0 3) ''plastic'',
      total (SetShaderColor 0.05 0.05 0.05 1.0),
      total (DrawMeshOf BoxMesh),
      total (SetTransformations (0.47, 0.63, 0.02) 5.0 0.0 0.0 (0.0, 0.9, - 0.83)),
      SetShaderMaterial (material0 4) ''glassscreen'',
      SetShaderTexture ''screen'',
      total (SetTextureUVScale 1.0 1.0),
      total (DrawMeshOf BoxMesh),
      total (SetTransformations (0.26, 0.26, 0.05) 20.0 0.0 0.0 (- 0.65, 0.85, - 0.7)),
      SetShaderMaterial (material0 5) ''plastic'',
      SetShaderTexture ''wheel'',
      total (DrawMeshOf TorusMesh),
      total (SetTransformations (0.04, 0.41, 0.04) (- 90.0) 0.0 0.0 (- 0.65, 0.85, - 0.7)),
      SetShaderMaterial (material0 6) ''matteblack'',
      total (DrawMeshOf CylinderMesh),
      total (SetTransformations (0.12, 0.12, 0.05) 20.0 0.0 0.0 (- 0.65, 0.85, - 0.7)),
      SetShaderMaterial (material0 7) ''plastic'',
      total (SetShaderColor 0.2 0.2 0.2 1.0),
      total (DrawMeshOf BoxMesh),
      total (SetTransformations (0.5, 0.1, 0.5) 0.0 0.0 0.0 (- 0.7, 0.1, 0.0)),
      SetShaderMaterial (material0 8) ''dashmat'',
      SetShaderTexture ''dash'',
      total (DrawMeshOf BoxMesh),
      total (SetTransformations (0.5, 0.7, 0.1) 15.0 0.0 0.0 (- 0.699, 0.5, 0.35)),
      SetShaderMaterial (material0 9) ''dashmat'',
      SetShaderTexture ''dash'',
      total (DrawMeshOf BoxMesh),
      total (SetTransformations (0.3, 0.25, 1.8) 0.0 0.0 0.0 (0.0, 0.2, - 0.2)),
      SetShaderMaterial (material0 10) ''plastic'',
      total (SetShaderColor 0.1 0.1 0.1 1.0),
      total (DrawMeshOf BoxMesh),
      total (SetTransformations (0.2, 0.1, 0.2) 0.0 0.0 0.0 (0.0, 0.3, 0.4)),
      SetShaderMaterial (material0 11) ''matteblack'',
      total (DrawMeshOf BoxMesh)]"
  have script: "RenderScene material0 = run (pre @ SetShaderMaterial (material0 2) ''metal'' # post)"
    by (simp add: RenderScene_def pre_def post_def)
  have "safe_step (run pre)"
    by (rule safe_step_run) (simp add: pre_def safe_steps)
  with r obtain st1 where 1: "run pre st = Inr st1" and e1: "extends st st1"
    by (auto simp: safe_step_def)
  have r1: "ready st1" using r e1 by (rule extends_ready)
  have mats1: "m_objectMaterials st1 = m_objectMaterials st" using e1 by (simp add: extends_def)
  from r1 obtain sh1 where sh1: "m_pShaderManager st1 = Some sh1" by (auto simp: ready_def)
  have found: "FindMaterial ''metal'' (material0 2) st1 = (True, material0 2)"
    using ne un by (intro FindMaterial_unmatched) (simp_all add: mats1)
  define st2 where "st2 = st1\<lparr>m_pShaderManager := Some
      ([(''material.shininess'', UFloat (shininess (material0 2))),
        (''material.specularColor'', UVec3 (specularColor (material0 2))),
        (''material.diffuseColor'', UVec3 (diffuseColor (material0 2)))] @ sh1)\<rparr>"
  have 2: "SetShaderMaterial (material0 2) ''metal'' st1 = Inr st2"
    using SetShaderMaterial_writes [OF sh1, of "material0 2" "''metal''"] ne
    by (simp add: mats1 found st2_def)
  have r2: "ready st2" using r1 by (simp add: ready_def st2_def)
  have "safe_step (run post)"
    by (rule safe_step_run) (simp add: post_def safe_steps)
  with r2 obtain st3 where 3: "run post st2 = Inr st3" and e3: "extends st2 st3"
    by (auto simp: safe_step_def)
  from e3 obtain ws where sh3: "m_pShaderManager st3 = Some (ws @
      [(''material.shininess'', UFloat (shininess (material0 2))),
       (''material.specularColor'', UVec3 (specularColor (material0 2))),
       (''material.diffuseColor'', UVec3 (diffuseColor (material0 2)))] @ sh1)"
    by (auto simp: extends_def st2_def)
  have "RenderScene material0 st = Inr st3"
    by (simp add: script run_append 1 2 3)
  with sh3 show ?thesis by simp
qed

text \<open>
  C10. \<open>DefineObjectMaterials\<close> defines the tags \<open>matteblack\<close>, \<open>polishwhite\<close>,
  \<open>glassscreen\<close>, \<open>dashmat\<close> and \<open>plastic\<close> and no other, and these are the
  materials of every state that \<open>PrepareScene\<close> returns (started without materials).
  In such a state \<open>FindMaterial\<close> for \<open>metal\<close> returns true and leaves the material
  as it was passed, \<open>SetShaderMaterial\<close> for \<open>metal\<close> writes the three material
  uniforms from what its uninitialised local holds, and \<open>RenderScene\<close>, whose third
  material request is \<open>metal\<close>, returns with those writes made from the local of that
  call.
\<close>

theorem metal_material_never_defined:
  assumes "m_objectMaterials st0 = []" and "PrepareScene stbi_load st0 = Inr st"
  shows "map OBJECT_MATERIAL.tag (m_objectMaterials st)
           = [''matteblack'', ''polishwhite'', ''glassscreen'', ''dashmat'', ''plastic'']
         \<and> m_objectMaterials st = m_objectMaterials (DefineObjectMaterials st0)
         \<and> FindMaterial ''metal'' material st = (True, material)
         \<and> (\<exists>sh. m_pShaderManager st = Some sh
               \<and> SetShaderMaterial material ''metal'' st = Inr (st\<lparr>m_pShaderManager := Some
                    ((''material.shininess'', UFloat (shininess material))
                     # (''material.specularColor'', UVec3 (specularColor material))
                     # (''material.diffuseColor'', UVec3 (diffuseColor material)) # sh)\<rparr>))
         \<and> (\<exists>st' sh'. RenderScene material0 st = Inr st' \<and> m_pShaderManager st' = Some sh'
               \<and> {(''material.diffuseColor'', UVec3 (diffuseColor (material0 2))),
                   (''material.specularColor'', UVec3 (specularColor (material0 2))),
                   (''material.shininess'', UFloat (shininess (material0 2)))} \<subseteq> set sh')"
proof -
  from PrepareScene_result [OF assms(2)]
  have mats: "m_objectMaterials st = m_objectMaterials (DefineObjectMaterials st0)"
    and r: "ready st" by simp_all
  have tags: "map OBJECT_MATERIAL.tag (m_objectMaterials st)
           = [''matteblack'', ''polishwhite'', ''glassscreen'', ''dashmat'', ''plastic'']"
    using DefineObjectMaterials_tags [of st0] assms(1) by (simp add: mats)
  then have ne: "m_objectMaterials st \<noteq> []" by auto
  have "\<forall>t \<in> set (map OBJECT_MATERIAL.tag (m_objectMaterials st)). t \<noteq> ''metal''"
    unfolding tags by simp
  then have un: "\<forall>e \<in> set (m_objectMaterials st). OBJECT_MATERIAL.tag e \<noteq> ''metal''"
    by simp
  have found: "FindMaterial ''metal'' material st = (True, material)"
    using ne un by (rule FindMaterial_unmatched)
  from r obtain sh where sh: "m_pShaderManager st = Some sh" by (auto simp: ready_def)
  have writes: "SetShaderMaterial material ''metal'' st = Inr (st\<lparr>m_pShaderManager := Some
                    ((''material.shininess'', UFloat (shininess material))
                     # (''material.specularColor'', UVec3 (specularColor material))
                     # (''material.diffuseColor'', UVec3 (diffuseColor material)) # sh)\<rparr>)"
    using SetShaderMaterial_writes [OF sh ne, of material "''metal''"] by (simp add: found)
  note RenderScene_metal_writes [OF r ne un, of material0]
  with tags mats found sh writes show ?thesis by simp
qed

lemma prepared_scene_prepared:
  "PrepareScene example_files (blank_scene (Some [])) = Inr prepared_scene"
proof -
  have "isl (PrepareScene example_files (blank_scene (Some []))) = False"
    by code_simp
  then show ?thesis
    by (cases "PrepareScene example_files (blank_scene (Some []))")
       (simp_all add: prepared_scene_def)
qed

theorem metal_material_never_defined_witness:
  "map OBJECT_MATERIAL.tag (m_objectMaterials prepared_scene)
           = [''matteblack'', ''polishwhite'', ''glassscreen'', ''dashmat'', ''plastic'']
   \<and> FindMaterial ''metal'' stale_material prepared_scene = (True, stale_material)
   \<and> (\<exists>sh. m_pShaderManager prepared_scene = Some sh
         \<and> SetShaderMaterial stale_material ''metal'' prepared_scene
             = Inr (prepared_scene\<lparr>m_pShaderManager := Some
                    ((''material.shininess'', UFloat 9)
                     # (''material.specularColor'', UVec3 (8, 8, 8))
                     # (''material.diffuseColor'', UVec3 (7, 7, 7)) # sh)\<rparr>))
   \<and> (\<exists>st' sh'. RenderScene (\<lambda>k. stale_material) prepared_scene = Inr st'
         \<and> m_pShaderManager st' = Some sh'
         \<and> {(''material.diffuseColor'', UVec3 (7, 7, 7)),
             (''material.specularColor'', UVec3 (8, 8, 8)),
             (''material.shininess'', UFloat 9)} \<subseteq> set sh')"
proof -
  have "m_objectMaterials (blank_scene (Some [])) = []" by (simp add: blank_scene_def)
  from metal_material_never_defined [OF this prepared_scene_prepared,
         of stale_material "\<lambda>k. stale_material"]
  show ?thesis by (simp add: stale_material_def DefineObjectMaterials_tags blank_scene_def)
qed

end
